theory Spec2Isabelle
  imports Complex_Main
begin

section \<open>Errors\<close>

text \<open>
  Every exception the modelled code can raise is a value.  A computation that may raise
  returns \<open>error + 'a\<close>, with \<open>Inl\<close> for the exception.
\<close>

datatype error = TypeError | ValueError | RuntimeError | NotImplementedError | KeyError

definition ebind :: "error + 'a \<Rightarrow> ('a \<Rightarrow> error + 'b) \<Rightarrow> error + 'b" where
  "ebind m f = (case m of Inl e \<Rightarrow> Inl e | Inr x \<Rightarrow> f x)"

definition lift2 :: "('a \<Rightarrow> 'b \<Rightarrow> error + 'c) \<Rightarrow> error + 'a \<Rightarrow> error + 'b \<Rightarrow> error + 'c" where
  \<comment> \<open>Python evaluates the left operand, then the right one, then applies the operator.\<close>
  "lift2 f x y = ebind x (\<lambda>a. ebind y (\<lambda>b. f a b))"

section \<open>Tensors\<close>

text \<open>
  The array library is external to the repository.  A tensor is modelled by its shape and
  its entries in row-major order; entries are real numbers (the idealisation of the
  floating-point entries).  A Python number taking part in tensor arithmetic is a tensor
  of shape \<open>[]\<close>.
\<close>

record tensor =
  shape :: "nat list"
  entries :: "real list"

fun indices :: "nat list \<Rightarrow> nat list list" where
  "indices [] = [[]]"
| "indices (n # s) = concat (map (\<lambda>k. map ((#) k) (indices s)) [0..<n])"

definition tabulate :: "nat list \<Rightarrow> (nat list \<Rightarrow> real) \<Rightarrow> tensor" where
  "tabulate s f = \<lparr>shape = s, entries = map f (indices s)\<rparr>"

definition entry :: "tensor \<Rightarrow> nat list \<Rightarrow> real" where
  \<comment> \<open>The entry at a multi-index; the model only reads indices of the tensor's shape.\<close>
  "entry t i = (case map_of (zip (indices (shape t)) (entries t)) i of Some x \<Rightarrow> x | None \<Rightarrow> 0)"

definition scalar :: "real \<Rightarrow> tensor" where
  "scalar c = \<lparr>shape = [], entries = [c]\<rparr>"

definition numel :: "tensor \<Rightarrow> nat" where
  "numel t = prod_list (shape t)"

subsection \<open>Broadcasting\<close>

text \<open>
  Shapes are aligned at their last dimension.  Two aligned sizes are compatible when they
  are equal or one of them is 1.  \<open>bc_rev\<close> works on the reversed shapes, so that the
  alignment is at the head of the lists.
\<close>

fun bc_rev :: "nat list \<Rightarrow> nat list \<Rightarrow> nat list option" where
  "bc_rev [] ys = Some ys"
| "bc_rev (x # xs) [] = Some (x # xs)"
| "bc_rev (x # xs) (y # ys) =
     (if x = y \<or> y = 1 then map_option ((#) x) (bc_rev xs ys)
      else if x = 1 then map_option ((#) y) (bc_rev xs ys)
      else None)"

definition broadcast_shapes :: "nat list \<Rightarrow> nat list \<Rightarrow> nat list option" where
  "broadcast_shapes a b = map_option rev (bc_rev (rev a) (rev b))"

definition bidx :: "nat list \<Rightarrow> nat list \<Rightarrow> nat list" where
  \<comment> \<open>The index of a tensor of shape \<open>s\<close> read at index \<open>i\<close> of a broadcast result: leading
      positions are dropped and a dimension of size 1 is read at 0.\<close>
  "bidx s i = rev (map (\<lambda>(d, j). if d = 1 then 0 else j) (zip (rev s) (rev i)))"

definition binop :: "(real \<Rightarrow> real \<Rightarrow> real) \<Rightarrow> tensor \<Rightarrow> tensor \<Rightarrow> error + tensor" where
  \<comment> \<open>An element-wise binary operation; shapes that do not broadcast raise RuntimeError.\<close>
  "binop f a b =
     (case broadcast_shapes (shape a) (shape b) of
        None \<Rightarrow> Inl RuntimeError
      | Some s \<Rightarrow> Inr (tabulate s (\<lambda>i. f (entry a (bidx (shape a) i)) (entry b (bidx (shape b) i)))))"

definition tadd :: "error + tensor \<Rightarrow> error + tensor \<Rightarrow> error + tensor" where
  "tadd = lift2 (binop (+))"

definition tsub :: "error + tensor \<Rightarrow> error + tensor \<Rightarrow> error + tensor" where
  "tsub = lift2 (binop (-))"

definition tmul :: "error + tensor \<Rightarrow> error + tensor \<Rightarrow> error + tensor" where
  "tmul = lift2 (binop (*))"

definition tdiv :: "error + tensor \<Rightarrow> error + tensor \<Rightarrow> error + tensor" where
  \<comment> \<open>Division of reals; the model says nothing about a zero divisor (inf or nan in floats).\<close>
  "tdiv = lift2 (binop (/))"

definition tmap :: "(real \<Rightarrow> real) \<Rightarrow> error + tensor \<Rightarrow> error + tensor" where
  \<comment> \<open>An element-wise unary operation (\<open>lgamma\<close>, \<open>log\<close>, negation, \<open>pow(2)\<close>).\<close>
  "tmap f x = ebind x (\<lambda>a. Inr (tabulate (shape a) (\<lambda>i. f (entry a i))))"

definition tall :: "(real \<Rightarrow> bool) \<Rightarrow> tensor \<Rightarrow> bool" where
  \<comment> \<open>\<open>constraint.check(t).all()\<close>\<close>
  "tall P t = list_all (\<lambda>i. P (entry t i)) (indices (shape t))"

fun expand_rev :: "nat list \<Rightarrow> int list \<Rightarrow> nat list option" where
  "expand_rev [] zs = (if list_ex (\<lambda>z. z < 0) zs then None else Some (map nat zs))"
| "expand_rev (d # ds) [] = None"
| "expand_rev (d # ds) (z # zs) =
     (if z = - 1 \<or> z = int d \<or> (d = 1 \<and> 0 \<le> z)
      then map_option ((#) (if z = - 1 then d else nat z)) (expand_rev ds zs)
      else None)"

definition texpand :: "tensor \<Rightarrow> int list \<Rightarrow> error + tensor" where
  \<comment> \<open>\<open>t.expand(sizes)\<close>: no fewer sizes than dimensions; an existing dimension keeps its
      size (given again, or as -1) or grows from 1; a new leading dimension has a size of
      its own.  Anything else raises RuntimeError.  \<open>expand_rev\<close> works on the reversed
      lists, as \<open>bc_rev\<close> does.\<close>
  "texpand t sizes =
     (case expand_rev (rev (shape t)) (rev sizes) of
        None \<Rightarrow> Inl RuntimeError
      | Some r \<Rightarrow> Inr (tabulate (rev r) (\<lambda>i. entry t (bidx (shape t) i))))"

definition expand_as :: "tensor \<Rightarrow> tensor \<Rightarrow> error + tensor" where
  "expand_as t other = texpand t (map int (shape other))"

definition broadcast_to :: "nat list \<Rightarrow> tensor \<Rightarrow> tensor" where
  "broadcast_to s t = tabulate s (\<lambda>i. entry t (bidx (shape t) i))"

definition broadcast_all2 :: "tensor \<Rightarrow> tensor \<Rightarrow> error + tensor \<times> tensor" where
  \<comment> \<open>\<open>torch.distributions.utils.broadcast_all\<close> of two arguments: both at the common shape.\<close>
  "broadcast_all2 a b =
     (case broadcast_shapes (shape a) (shape b) of
        None \<Rightarrow> Inl RuntimeError
      | Some s \<Rightarrow> Inr (broadcast_to s a, broadcast_to s b))"

definition broadcast_all3 :: "tensor \<Rightarrow> tensor \<Rightarrow> tensor \<Rightarrow> error + tensor \<times> tensor \<times> tensor" where
  "broadcast_all3 a b c =
     (case broadcast_shapes (shape b) (shape c) of
        None \<Rightarrow> Inl RuntimeError
      | Some s' \<Rightarrow>
          (case broadcast_shapes (shape a) s' of
             None \<Rightarrow> Inl RuntimeError
           | Some s \<Rightarrow> Inr (broadcast_to s a, broadcast_to s b, broadcast_to s c)))"

subsection \<open>Views, reductions, ranges\<close>

definition view :: "tensor \<Rightarrow> int list \<Rightarrow> error + tensor" where
  \<comment> \<open>\<open>t.view(sizes)\<close> of a contiguous tensor: the same entries under a new shape with as
      many elements; one size may be -1 and is then inferred.\<close>
  "view t sizes =
     (let known = prod_list (filter (\<lambda>z. z \<noteq> - 1) sizes);
          holes = length (filter (\<lambda>z. z = - 1) sizes)
      in if list_ex (\<lambda>z. z < - 1) sizes \<or> 1 < holes then Inl RuntimeError
         else if holes = 1 then
           (if known = 0 \<or> int (numel t) mod known \<noteq> 0 then Inl RuntimeError
            else Inr \<lparr>shape = map (\<lambda>z. if z = - 1 then nat (int (numel t) div known) else nat z) sizes,
                      entries = entries t\<rparr>)
         else if known \<noteq> int (numel t) then Inl RuntimeError
         else Inr \<lparr>shape = map nat sizes, entries = entries t\<rparr>)"

definition tsum0 :: "tensor \<Rightarrow> tensor" where
  \<comment> \<open>\<open>t.sum(0)\<close>: the sum over the first dimension.\<close>
  "tsum0 t =
     (case shape t of
        [] \<Rightarrow> t
      | m # rest \<Rightarrow> tabulate rest (\<lambda>i. sum_list (map (\<lambda>k. entry t (k # i)) [0..<m])))"

definition tmax :: "tensor \<Rightarrow> error + real" where
  \<comment> \<open>\<open>t.max()\<close>; the maximum of no element raises RuntimeError.\<close>
  "tmax t =
     (case map (entry t) (indices (shape t)) of
        [] \<Rightarrow> Inl RuntimeError
      | x # xs \<Rightarrow> Inr (foldl max x xs))"

definition tmin :: "tensor \<Rightarrow> error + real" where
  "tmin t =
     (case map (entry t) (indices (shape t)) of
        [] \<Rightarrow> Inl RuntimeError
      | x # xs \<Rightarrow> Inr (foldl min x xs))"

definition arange :: "int \<Rightarrow> error + tensor" where
  \<comment> \<open>\<open>torch.arange(n)\<close>: the numbers 0, 1, ..., n - 1; a negative \<open>n\<close> raises RuntimeError.\<close>
  "arange n =
     (if n < 0 then Inl RuntimeError
      else Inr \<lparr>shape = [nat n], entries = map real [0..<nat n]\<rparr>)"

definition py_int :: "real \<Rightarrow> int" where
  \<comment> \<open>Python's \<open>int(x)\<close> truncates towards zero.\<close>
  "py_int x = (if 0 \<le> x then \<lfloor>x\<rfloor> else \<lceil>x\<rceil>)"

subsection \<open>Python sequences\<close>

definition py_take :: "'a list \<Rightarrow> int \<Rightarrow> 'a list" where
  \<comment> \<open>\<open>xs[:k]\<close>: a negative \<open>k\<close> counts from the end.\<close>
  "py_take xs k = take (nat (if k < 0 then k + int (length xs) else k)) xs"

definition py_drop :: "'a list \<Rightarrow> int \<Rightarrow> 'a list" where
  \<comment> \<open>\<open>xs[k:]\<close>\<close>
  "py_drop xs k = drop (nat (if k < 0 then k + int (length xs) else k)) xs"

definition reduce_mul :: "nat list \<Rightarrow> error + nat" where
  \<comment> \<open>\<open>reduce(mul, xs)\<close> with no initial value: the empty sequence raises TypeError.\<close>
  "reduce_mul xs = (case xs of [] \<Rightarrow> Inl TypeError | x # rest \<Rightarrow> Inr (foldl (*) x rest))"

definition sum_leftmost :: "tensor \<Rightarrow> int \<Rightarrow> error + tensor" where
  \<comment> \<open>Modelled from the spec: \<open>sum_leftmost\<close> is imported from \<open>pyro.distributions.util\<close>,
      which is not among the sources.  It sums out the \<open>dm\<close> leftmost dimensions; for a
      negative \<open>dm\<close> it sums out all but the rightmost \<open>- dm\<close> dimensions, the "sum over the
      leading dimensions" of the spec; a \<open>dm\<close> of 0 sums out no dimension.  The leading
      dimensions are merged into one by a view and that one is summed.\<close>
  "sum_leftmost value dm =
     (let d = (if dm < 0 then dm + int (length (shape value)) else dm)
      in if d = 0 then Inr value
         else ebind (view value (- 1 # map int (py_drop (shape value) d))) (\<lambda>v. Inr (tsum0 v)))"

section \<open>The conjugate priors and the base distribution\<close>

text \<open>
  \<open>Beta\<close>, \<open>Gamma\<close> and the base class \<open>TorchDistribution\<close> are collaborators of the
  module.  The model keeps what the module reads of them: the broadcast parameters, the batch
  shape and the validation flag.  A constructor given \<open>validate_args=None\<close> takes the
  class-level default, the parameter \<open>dflt\<close>; with the flag set, the base initialiser
  checks the parameters against \<open>arg_constraints\<close> and raises ValueError.
\<close>

definition positive :: "real \<Rightarrow> bool" where
  "positive x = (0 < x)"

definition nonnegative_integer :: "real \<Rightarrow> bool" where
  "nonnegative_integer x = (x = real_of_int \<lfloor>x\<rfloor> \<and> 0 \<le> x)"

definition resolve_validate_args :: "bool \<Rightarrow> bool option \<Rightarrow> bool" where
  "resolve_validate_args dflt va = (case va of None \<Rightarrow> dflt | Some b \<Rightarrow> b)"

record Beta =
  b_concentration1 :: tensor
  b_concentration0 :: tensor
  b_batch_shape :: "nat list"
  b_validate_args :: bool

definition Beta_init :: "bool \<Rightarrow> tensor \<Rightarrow> tensor \<Rightarrow> bool option \<Rightarrow> error + Beta" where
  "Beta_init dflt concentration1 concentration0 validate_args =
     ebind (broadcast_all2 concentration1 concentration0) (\<lambda>(c1, c0).
       let va = resolve_validate_args dflt validate_args in
       if va \<and> \<not> (tall positive c1 \<and> tall positive c0) then Inl ValueError
       else Inr \<lparr>b_concentration1 = c1, b_concentration0 = c0,
                 b_batch_shape = shape c1, b_validate_args = va\<rparr>)"

definition Beta_expand :: "Beta \<Rightarrow> nat list \<Rightarrow> error + Beta" where
  "Beta_expand self batch_shape =
     ebind (texpand (b_concentration1 self) (map int batch_shape)) (\<lambda>c1.
     ebind (texpand (b_concentration0 self) (map int batch_shape)) (\<lambda>c0.
       Inr \<lparr>b_concentration1 = c1, b_concentration0 = c0,
            b_batch_shape = batch_shape, b_validate_args = b_validate_args self\<rparr>))"

record Gamma =
  g_concentration :: tensor
  g_rate :: tensor
  g_batch_shape :: "nat list"
  g_validate_args :: bool

definition Gamma_init :: "bool \<Rightarrow> tensor \<Rightarrow> tensor \<Rightarrow> bool option \<Rightarrow> error + Gamma" where
  "Gamma_init dflt concentration rate validate_args =
     ebind (broadcast_all2 concentration rate) (\<lambda>(c, r).
       let va = resolve_validate_args dflt validate_args in
       if va \<and> \<not> (tall positive c \<and> tall positive r) then Inl ValueError
       else Inr \<lparr>g_concentration = c, g_rate = r,
                 g_batch_shape = shape c, g_validate_args = va\<rparr>)"

definition Gamma_expand :: "Gamma \<Rightarrow> nat list \<Rightarrow> error + Gamma" where
  "Gamma_expand self batch_shape =
     ebind (texpand (g_concentration self) (map int batch_shape)) (\<lambda>c.
     ebind (texpand (g_rate self) (map int batch_shape)) (\<lambda>r.
       Inr \<lparr>g_concentration = c, g_rate = r,
            g_batch_shape = batch_shape, g_validate_args = g_validate_args self\<rparr>))"

section \<open>The store of parameter dictionaries\<close>

text \<open>
  \<open>_unexpanded_params\<close> is a dictionary object that an instance refers to.  Dictionaries
  live in a store; an instance holds the address.  A cell never allocated holds the empty
  dictionary.
\<close>

type_synonym params = "string \<rightharpoonup> tensor"

record store =
  cells :: "nat \<Rightarrow> params"
  next_ref :: nat

definition empty_store :: store where
  "empty_store = \<lparr>cells = (\<lambda>_. Map.empty), next_ref = 0\<rparr>"

definition alloc :: "store \<Rightarrow> params \<Rightarrow> nat \<times> store" where
  "alloc st d = (next_ref st, st\<lparr>cells := (cells st)(next_ref st := d), next_ref := Suc (next_ref st)\<rparr>)"

definition getitem :: "params \<Rightarrow> string \<Rightarrow> error + tensor" where
  \<comment> \<open>\<open>d[key]\<close>\<close>
  "getitem d k = (case d k of None \<Rightarrow> Inl KeyError | Some v \<Rightarrow> Inr v)"

definition log_beta :: "(real \<Rightarrow> real) \<Rightarrow> error + tensor \<Rightarrow> error + tensor \<Rightarrow> error + tensor" where
  \<comment> \<open>\<open>_log_beta\<close>; \<open>torch.lgamma\<close> is the parameter \<open>lgamma\<close>.\<close>
  "log_beta lgamma x y = tsub (tadd (tmap lgamma x) (tmap lgamma y)) (tmap lgamma (tadd x y))"

section \<open>BetaBinomial\<close>

record BetaBinomial =
  bb_beta :: Beta
  bb_unexpanded_params :: nat
  bb_total_count :: tensor
  bb_batch_shape :: "nat list"
  bb_validate_args :: bool

definition concentration1 :: "BetaBinomial \<Rightarrow> tensor" where
  "concentration1 self = b_concentration1 (bb_beta self)"

definition concentration0 :: "BetaBinomial \<Rightarrow> tensor" where
  "concentration0 self = b_concentration0 (bb_beta self)"

definition BetaBinomial_init ::
  "bool \<Rightarrow> store \<Rightarrow> tensor \<Rightarrow> tensor \<Rightarrow> tensor \<Rightarrow> bool option \<Rightarrow> error + BetaBinomial \<times> store" where
  "BetaBinomial_init dflt st concentration1_arg concentration0_arg total_count validate_args =
     ebind (broadcast_all3 concentration1_arg concentration0_arg total_count) (\<lambda>(c1, c0, tc).
     ebind (Beta_init dflt c1 c0 None) (\<lambda>beta.
       let (r, st') = alloc st [''concentration1'' \<mapsto> c1, ''concentration0'' \<mapsto> c0,
                                ''total_count'' \<mapsto> tc];
           va = resolve_validate_args dflt validate_args
       in if va \<and> \<not> (tall positive (b_concentration1 beta) \<and> tall positive (b_concentration0 beta)
                       \<and> tall nonnegative_integer tc)
          then Inl ValueError
          else Inr (\<lparr>bb_beta = beta, bb_unexpanded_params = r, bb_total_count = tc,
                     bb_batch_shape = b_batch_shape beta, bb_validate_args = va\<rparr>, st')))"

definition BetaBinomial_expand :: "BetaBinomial \<Rightarrow> nat list \<Rightarrow> error + BetaBinomial" where
  \<comment> \<open>The base initialiser is run with \<open>validate_args=False\<close>; the flag of \<open>self\<close> is copied
      afterwards.\<close>
  "BetaBinomial_expand self batch_shape =
     ebind (Beta_expand (bb_beta self) batch_shape) (\<lambda>new_beta.
     ebind (expand_as (bb_total_count self) (b_concentration0 new_beta)) (\<lambda>new_total_count.
       let new = \<lparr>bb_beta = new_beta, bb_unexpanded_params = bb_unexpanded_params self,
                  bb_total_count = new_total_count, bb_batch_shape = batch_shape,
                  bb_validate_args = False\<rparr>
       in Inr (new\<lparr>bb_validate_args := bb_validate_args self\<rparr>)))"

definition BetaBinomial_posterior_latent_dist ::
  "bool \<Rightarrow> store \<Rightarrow> BetaBinomial \<Rightarrow> tensor \<Rightarrow> error + Beta" where
  "BetaBinomial_posterior_latent_dist dflt st self obs =
     (let d = cells st (bb_unexpanded_params self) in
      ebind (getitem d ''concentration1'') (\<lambda>c1.
      ebind (getitem d ''concentration0'') (\<lambda>c0.
      ebind (getitem d ''total_count'') (\<lambda>total_count.
        let num_dims = length (shape c1) in
        ebind (reduce_mul (py_take (shape obs) (int (length (shape obs)) - int num_dims))) (\<lambda>num_obs.
        ebind (sum_leftmost obs (- int num_dims)) (\<lambda>summed_obs.
        ebind (tadd (Inr c1) (Inr summed_obs)) (\<lambda>a.
        ebind (tsub (tadd (tmul (Inr (scalar (real num_obs))) (Inr total_count)) (Inr c0))
                    (Inr summed_obs)) (\<lambda>b.
          Beta_init dflt a b (Some (bb_validate_args self))))))))))"

definition BetaBinomial_validate_sample :: "BetaBinomial \<Rightarrow> tensor \<Rightarrow> error + unit" where
  \<comment> \<open>Modelled from the spec: \<open>_validate_sample\<close> belongs to the base class.  The value is
      checked against the support, the integers from 0 to \<open>total_count\<close>; a value that is
      negative, exceeds \<open>total_count\<close> or is not an integer raises ValueError.\<close>
  "BetaBinomial_validate_sample self value =
     (case binop (\<lambda>k n. if k = real_of_int \<lfloor>k\<rfloor> \<and> 0 \<le> k \<and> k \<le> n then 1 else 0)
             value (bb_total_count self) of
        Inl e \<Rightarrow> Inl ValueError
      | Inr ok \<Rightarrow> if tall (\<lambda>x. x \<noteq> 0) ok then Inr () else Inl ValueError)"

definition BetaBinomial_log_prob :: "(real \<Rightarrow> real) \<Rightarrow> BetaBinomial \<Rightarrow> tensor \<Rightarrow> error + tensor" where
  "BetaBinomial_log_prob lgamma self value =
     ebind (if bb_validate_args self then BetaBinomial_validate_sample self value else Inr ()) (\<lambda>_.
       let total_count = Inr (bb_total_count self);
           log_factorial_n = tmap lgamma (tadd total_count (Inr (scalar 1)));
           log_factorial_k = tmap lgamma (tadd (Inr value) (Inr (scalar 1)));
           log_factorial_nmk = tmap lgamma (tadd (tsub total_count (Inr value)) (Inr (scalar 1)))
       in tsub (tadd (tsub (tsub log_factorial_n log_factorial_k) log_factorial_nmk)
                     (log_beta lgamma (tadd (Inr value) (Inr (concentration1 self)))
                        (tadd (tsub total_count (Inr value)) (Inr (concentration0 self)))))
               (log_beta lgamma (Inr (concentration0 self)) (Inr (concentration1 self))))"

definition BetaBinomial_enumerate_support :: "BetaBinomial \<Rightarrow> bool \<Rightarrow> error + tensor" where
  "BetaBinomial_enumerate_support self expand =
     ebind (tmax (bb_total_count self)) (\<lambda>mx.
       let total_count = py_int mx in
       ebind (tmin (bb_total_count self)) (\<lambda>mn.
         if \<not> (mn = real_of_int total_count) then Inl NotImplementedError
         else
           ebind (arange (1 + total_count)) (\<lambda>values.
           ebind (view values (- 1 # replicate (length (bb_batch_shape self)) 1)) (\<lambda>values.
             if expand then texpand values (- 1 # map int (bb_batch_shape self))
             else Inr values))))"

section \<open>GammaPoisson\<close>

record GammaPoisson =
  gp_gamma :: Gamma
  gp_unexpanded_params :: nat
  gp_batch_shape :: "nat list"
  gp_validate_args :: bool

definition concentration :: "GammaPoisson \<Rightarrow> tensor" where
  "concentration self = g_concentration (gp_gamma self)"

definition rate :: "GammaPoisson \<Rightarrow> tensor" where
  "rate self = g_rate (gp_gamma self)"

definition GammaPoisson_init ::
  "bool \<Rightarrow> store \<Rightarrow> tensor \<Rightarrow> tensor \<Rightarrow> bool option \<Rightarrow> error + GammaPoisson \<times> store" where
  "GammaPoisson_init dflt st concentration_arg rate_arg validate_args =
     ebind (broadcast_all2 concentration_arg rate_arg) (\<lambda>(c, r).
     ebind (Gamma_init dflt c r None) (\<lambda>gamma.
       let (ref, st') = alloc st [''concentration'' \<mapsto> c, ''rate'' \<mapsto> r];
           va = resolve_validate_args dflt validate_args
       in if va \<and> \<not> (tall positive (g_concentration gamma) \<and> tall positive (g_rate gamma))
          then Inl ValueError
          else Inr (\<lparr>gp_gamma = gamma, gp_unexpanded_params = ref,
                     gp_batch_shape = g_batch_shape gamma, gp_validate_args = va\<rparr>, st')))"

definition GammaPoisson_expand :: "GammaPoisson \<Rightarrow> nat list \<Rightarrow> error + GammaPoisson" where
  "GammaPoisson_expand self batch_shape =
     ebind (Gamma_expand (gp_gamma self) batch_shape) (\<lambda>new_gamma.
       let new = \<lparr>gp_gamma = new_gamma, gp_unexpanded_params = gp_unexpanded_params self,
                  gp_batch_shape = batch_shape, gp_validate_args = False\<rparr>
       in Inr (new\<lparr>gp_validate_args := gp_validate_args self\<rparr>))"

definition GammaPoisson_posterior_latent_dist ::
  "bool \<Rightarrow> store \<Rightarrow> GammaPoisson \<Rightarrow> tensor \<Rightarrow> error + Gamma" where
  "GammaPoisson_posterior_latent_dist dflt st self obs =
     (let d = cells st (gp_unexpanded_params self) in
      ebind (getitem d ''concentration'') (\<lambda>c.
      ebind (getitem d ''rate'') (\<lambda>r.
        let num_dims = length (shape c) in
        ebind (reduce_mul (py_take (shape obs) (int num_dims))) (\<lambda>num_obs.
        ebind (sum_leftmost obs (- int num_dims)) (\<lambda>summed_obs.
        ebind (tadd (Inr c) (Inr summed_obs)) (\<lambda>a.
        ebind (tadd (Inr r) (Inr (scalar (real num_obs)))) (\<lambda>b.
          Gamma_init dflt a b None)))))))"

definition GammaPoisson_validate_sample :: "GammaPoisson \<Rightarrow> tensor \<Rightarrow> error + unit" where
  \<comment> \<open>Modelled from the spec: the support is the non-negative integers.\<close>
  "GammaPoisson_validate_sample self value =
     (if tall nonnegative_integer value then Inr () else Inl ValueError)"

definition GammaPoisson_log_prob ::
  "(real \<Rightarrow> real) \<Rightarrow> (real \<Rightarrow> real) \<Rightarrow> GammaPoisson \<Rightarrow> tensor \<Rightarrow> error + tensor" where
  \<comment> \<open>\<open>torch.lgamma\<close> and \<open>torch.log\<close> are the parameters \<open>lgamma\<close> and \<open>logf\<close>.\<close>
  "GammaPoisson_log_prob lgamma logf self value =
     ebind (if gp_validate_args self then GammaPoisson_validate_sample self value else Inr ()) (\<lambda>_.
       let post_value = tadd (Inr (concentration self)) (Inr value)
       in tsub (tadd (tsub (tmap uminus (log_beta lgamma (Inr (concentration self))
                                           (tadd (Inr value) (Inr (scalar 1)))))
                           (tmap logf post_value))
                     (tmul (Inr (concentration self)) (tmap logf (Inr (rate self)))))
               (tmul post_value (tmap logf (tadd (Inr (scalar 1)) (Inr (rate self))))))"

definition GammaPoisson_mean :: "GammaPoisson \<Rightarrow> error + tensor" where
  "GammaPoisson_mean self = tdiv (Inr (concentration self)) (Inr (rate self))"

definition GammaPoisson_variance :: "GammaPoisson \<Rightarrow> error + tensor" where
  "GammaPoisson_variance self =
     tmul (tdiv (Inr (concentration self)) (tmap (\<lambda>x. x ^ 2) (Inr (rate self))))
          (tadd (Inr (scalar 1)) (Inr (rate self)))"

section \<open>Notions used by the statements and proofs\<close>

subsection \<open>Shapes that broadcast into a shape\<close>

fun fits_rev :: "nat list \<Rightarrow> nat list \<Rightarrow> bool" where
  "fits_rev [] cs = True"
| "fits_rev (a # as) [] = False"
| "fits_rev (a # as) (c # cs) = ((a = c \<or> a = 1) \<and> fits_rev as cs)"

definition fits :: "nat list \<Rightarrow> nat list \<Rightarrow> bool" where
  \<comment> \<open>A tensor of shape \<open>a\<close> broadcasts to the shape \<open>s\<close>.\<close>
  "fits a s = fits_rev (rev a) (rev s)"

definition den :: "tensor \<Rightarrow> nat list \<Rightarrow> real" where
  \<comment> \<open>The entry of a tensor that an index of a broadcast result reads.\<close>
  "den t i = entry t (bidx (shape t) i)"

definition evaluates :: "nat list \<Rightarrow> error + tensor \<Rightarrow> (nat list \<Rightarrow> real) \<Rightarrow> bool" where
  \<comment> \<open>The computation returns a tensor that broadcasts to \<open>s\<close> and reads \<open>g i\<close> at every
      index \<open>i\<close> of \<open>s\<close>.\<close>
  "evaluates s x g = (\<exists>c. x = Inr c \<and> fits (shape c) s \<and> (\<forall>i \<in> set (indices s). den c i = g i))"

definition rshape :: "error + tensor \<Rightarrow> nat list option" where
  "rshape x = (case x of Inl e \<Rightarrow> None | Inr c \<Rightarrow> Some (shape c))"

subsection \<open>Invariants of the instances\<close>

definition bb_inv :: "BetaBinomial \<Rightarrow> bool" where
  \<comment> \<open>After broadcasting, all parameters have the batch shape.\<close>
  "bb_inv self =
     (shape (concentration1 self) = bb_batch_shape self \<and>
      shape (concentration0 self) = bb_batch_shape self \<and>
      shape (bb_total_count self) = bb_batch_shape self)"

definition gp_inv :: "GammaPoisson \<Rightarrow> bool" where
  "gp_inv self =
     (shape (concentration self) = gp_batch_shape self \<and>
      shape (rate self) = gp_batch_shape self)"

inductive bb_derived :: "BetaBinomial \<Rightarrow> BetaBinomial \<Rightarrow> bool" where
  bb_origin: "bb_derived x x"
| bb_expanded: "bb_derived x y \<Longrightarrow> BetaBinomial_expand y batch_shape = Inr z \<Longrightarrow> bb_derived x z"

inductive gp_derived :: "GammaPoisson \<Rightarrow> GammaPoisson \<Rightarrow> bool" where
  gp_origin: "gp_derived x x"
| gp_expanded: "gp_derived x y \<Longrightarrow> GammaPoisson_expand y batch_shape = Inr z \<Longrightarrow> gp_derived x z"

subsection \<open>The formulas of the specification, on numbers\<close>

definition log_beta_spec :: "(real \<Rightarrow> real) \<Rightarrow> real \<Rightarrow> real \<Rightarrow> real" where
  "log_beta_spec lgamma x y = lgamma x + lgamma y - lgamma (x + y)"

definition beta_binomial_spec :: "(real \<Rightarrow> real) \<Rightarrow> real \<Rightarrow> real \<Rightarrow> real \<Rightarrow> real \<Rightarrow> real" where
  \<comment> \<open>\<open>n\<close> = total_count, \<open>k\<close> = value, \<open>\<alpha>\<close> = concentration1, \<open>\<beta>\<close> = concentration0\<close>
  "beta_binomial_spec lgamma n k \<alpha> \<beta> =
     lgamma (n + 1) - lgamma (k + 1) - lgamma (n - k + 1)
       + log_beta_spec lgamma (k + \<alpha>) (n - k + \<beta>) - log_beta_spec lgamma \<beta> \<alpha>"

definition gamma_poisson_spec ::
  "(real \<Rightarrow> real) \<Rightarrow> (real \<Rightarrow> real) \<Rightarrow> real \<Rightarrow> real \<Rightarrow> real \<Rightarrow> real" where
  "gamma_poisson_spec lgamma logf c r v =
     - log_beta_spec lgamma c (v + 1) - logf (c + v) + c * logf r - (c + v) * logf (1 + r)"

definition bb_in_support :: "BetaBinomial \<Rightarrow> tensor \<Rightarrow> nat list \<Rightarrow> bool" where
  \<comment> \<open>Every entry of the value is an integer between 0 and the total count it meets.\<close>
  "bb_in_support self value s =
     list_all (\<lambda>i. den value i = real_of_int \<lfloor>den value i\<rfloor> \<and> 0 \<le> den value i
                    \<and> den value i \<le> den (bb_total_count self) i) (indices s)"

subsection \<open>Instances of the examples\<close>

definition bb_2_3_10 :: BetaBinomial where
  "bb_2_3_10 = fst (projr (BetaBinomial_init False empty_store (scalar 2) (scalar 3) (scalar 10) None))"

definition bb_2_3_4 :: "BetaBinomial \<times> store" where
  "bb_2_3_4 = projr (BetaBinomial_init False empty_store (scalar 2) (scalar 3) (scalar 4) None)"

definition gp_5_2 :: GammaPoisson where
  "gp_5_2 = fst (projr (GammaPoisson_init False empty_store (scalar 5) (scalar 2) None))"

definition gp_batch1 :: "GammaPoisson \<times> store" where
  \<comment> \<open>\<open>GammaPoisson(torch.tensor([2.]), 3.)\<close>, of batch shape \<open>(1,)\<close>\<close>
  "gp_batch1 = projr (GammaPoisson_init False empty_store \<lparr>shape = [1], entries = [2]\<rparr> (scalar 3) None)"

definition bb_batch2 :: BetaBinomial where
  \<comment> \<open>\<open>BetaBinomial(torch.tensor([2., 2.]), 3., total_count=1)\<close>, of batch shape \<open>(2,)\<close>\<close>
  "bb_batch2 = fst (projr (BetaBinomial_init False empty_store \<lparr>shape = [2], entries = [2, 2]\<rparr>
                             (scalar 3) (scalar 1) None))"

definition bb_validated :: BetaBinomial where
  \<comment> \<open>\<open>BetaBinomial(2., 3., total_count=4, validate_args=True)\<close>\<close>
  "bb_validated = fst (projr (BetaBinomial_init False empty_store (scalar 2) (scalar 3) (scalar 4) (Some True)))"

definition gp_validated :: GammaPoisson where
  \<comment> \<open>\<open>GammaPoisson(5., 2., validate_args=True)\<close>\<close>
  "gp_validated = fst (projr (GammaPoisson_init False empty_store (scalar 5) (scalar 2) (Some True)))"

definition bb_inhom :: BetaBinomial where
  \<comment> \<open>\<open>BetaBinomial(2., 3., total_count=torch.tensor([2., 3.]))\<close>\<close>
  "bb_inhom = fst (projr (BetaBinomial_init False empty_store (scalar 2) (scalar 3)
                            \<lparr>shape = [2], entries = [2, 3]\<rparr> None))"

definition gp_after_bb :: "GammaPoisson \<times> store" where
  \<comment> \<open>\<open>GammaPoisson(torch.tensor([2.]), 3., validate_args=True)\<close>, constructed after
      \<open>BetaBinomial(2., 3., total_count=4)\<close>: the store holds both dictionaries\<close>
  "gp_after_bb = projr (GammaPoisson_init False (snd bb_2_3_4) \<lparr>shape = [1], entries = [2]\<rparr>
                          (scalar 3) (Some True))"

section \<open>Basic facts\<close>

lemma ebind_simps [simp]: "ebind (Inl e) f = Inl e" "ebind (Inr x) f = f x"
  by (simp_all add: ebind_def)

lemma ebind_eq_Inr: "ebind m f = Inr y \<longleftrightarrow> (\<exists>x. m = Inr x \<and> f x = Inr y)"
  by (cases m) (simp_all add: ebind_def)

lemma Inr_projr: "\<not> isl x \<Longrightarrow> x = Inr (projr x)"
  by (cases x) simp_all

subsection \<open>Indices and entries\<close>

lemma in_indices_iff: "i \<in> set (indices s) \<longleftrightarrow> list_all2 (<) i s"
proof (induction s arbitrary: i)
  case Nil
  show ?case by auto
next
  case (Cons n s)
  show ?case
    by (cases i) (auto simp: Cons.IH image_iff)
qed

lemma indices_length: "i \<in> set (indices s) \<Longrightarrow> length i = length s"
  by (simp add: in_indices_iff list_all2_lengthD)

lemma entry_tabulate: "i \<in> set (indices s) \<Longrightarrow> entry (tabulate s f) i = f i"
  by (simp add: entry_def tabulate_def map_of_zip_map)

lemma tabulate_cong: "(\<And>i. i \<in> set (indices s) \<Longrightarrow> f i = g i) \<Longrightarrow> tabulate s f = tabulate s g"
  by (simp add: tabulate_def)

lemma shape_tabulate [simp]: "shape (tabulate s f) = s"
  by (simp add: tabulate_def)

lemma tabulate_entry_tabulate: "tabulate s (entry (tabulate s f)) = tabulate s f"
  by (rule tabulate_cong) (simp add: entry_tabulate)

subsection \<open>Broadcast indices\<close>

lemma pick_valid:
  "fits_rev ra rc \<Longrightarrow> list_all2 (<) ri rc \<Longrightarrow>
   list_all2 (<) (map (\<lambda>(d, j). if d = 1 then 0 else j) (zip ra ri)) ra"
proof (induction ra rc arbitrary: ri rule: fits_rev.induct)
  case (1 cs)
  then show ?case by simp
next
  case (2 a as)
  then show ?case by simp
next
  case (3 a as c cs)
  then show ?case by (cases ri) auto
qed

lemma pick_pick:
  "fits_rev ra rc \<Longrightarrow> length rc \<le> length ri \<Longrightarrow>
   map (\<lambda>(d, j). if d = 1 then 0 else j) (zip ra (map (\<lambda>(d, j). if d = 1 then 0 else j) (zip rc ri)))
   = map (\<lambda>(d, j). if d = 1 then 0 else j) (zip ra ri)"
proof (induction ra rc arbitrary: ri rule: fits_rev.induct)
  case (1 cs)
  then show ?case by simp
next
  case (2 a as)
  then show ?case by simp
next
  case (3 a as c cs)
  then show ?case by (cases ri) auto
qed

lemma bidx_valid: "fits a s \<Longrightarrow> i \<in> set (indices s) \<Longrightarrow> bidx a i \<in> set (indices a)"
  unfolding in_indices_iff fits_def bidx_def
  using pick_valid [of "rev a" "rev s" "rev i"]
  by (metis rev_rev_ident list_all2_rev1)

lemma bidx_bidx: "fits a c \<Longrightarrow> length c \<le> length i \<Longrightarrow> bidx a (bidx c i) = bidx a i"
  unfolding fits_def bidx_def using pick_pick [of "rev a" "rev c" "rev i"] by simp

lemma pick_self:
  "list_all2 (<) ri rs \<Longrightarrow> map (\<lambda>(d, j). if d = 1 then 0 else j) (zip rs ri) = (ri :: nat list)"
  by (induction ri rs rule: list_all2_induct) auto

lemma bidx_self: "i \<in> set (indices s) \<Longrightarrow> bidx s i = i"
  unfolding in_indices_iff bidx_def
  using pick_self [of "rev i" "rev s"] by (simp add: list_all2_rev)

subsection \<open>Shapes that fit\<close>

lemma fits_rev_length: "fits_rev a c \<Longrightarrow> length a \<le> length c"
  by (induction a c rule: fits_rev.induct) auto

lemma fits_rev_refl: "fits_rev a a"
  by (induction a) auto

lemma fits_rev_Nil2: "fits_rev a [] \<longleftrightarrow> a = []"
  by (cases a) auto

lemma fits_rev_trans: "fits_rev a b \<Longrightarrow> fits_rev b c \<Longrightarrow> fits_rev a c"
proof (induction a b arbitrary: c rule: fits_rev.induct)
  case (3 a as b bs)
  then show ?case by (cases c) auto
qed auto

lemma bc_rev_fits: "bc_rev xs ys = Some zs \<Longrightarrow> fits_rev xs zs \<and> fits_rev ys zs"
  by (induction xs ys arbitrary: zs rule: bc_rev.induct) (auto simp: fits_rev_refl split: if_splits)

lemma bc_rev_exists:
  "fits_rev xs zs \<Longrightarrow> fits_rev ys zs \<Longrightarrow> \<exists>ws. bc_rev xs ys = Some ws \<and> fits_rev ws zs"
proof (induction xs ys arbitrary: zs rule: bc_rev.induct)
  case (3 x xs y ys)
  show ?case
  proof (cases zs)
    case Nil
    with 3 show ?thesis by simp
  next
    case (Cons z zs')
    with "3.prems" have f: "fits_rev xs zs'" "fits_rev ys zs'"
      and xz: "x = z \<or> x = 1" and yz: "y = z \<or> y = 1"
      by auto
    from f xz yz have "\<exists>ws. bc_rev xs ys = Some ws \<and> fits_rev ws zs'"
      using "3.IH" [of zs'] by blast
    then obtain ws where ws: "bc_rev xs ys = Some ws" "fits_rev ws zs'" by blast
    with xz yz Cons show ?thesis by auto
  qed
qed (auto simp: fits_rev_refl)

lemma bc_rev_absorb: "fits_rev xs zs \<Longrightarrow> bc_rev xs zs = Some zs \<and> bc_rev zs xs = Some zs"
  by (induction xs zs rule: fits_rev.induct) (auto simp: fits_rev_refl, (case_tac cs; simp)+)

lemma bc_rev_comm: "bc_rev xs ys = bc_rev ys xs"
proof (induction xs ys rule: bc_rev.induct)
  case (1 ys)
  then show ?case by (cases ys) auto
qed auto

lemma expand_rev_fits: "expand_rev ds (map int rs) = Some ws \<longleftrightarrow> ws = rs \<and> fits_rev ds rs"
proof (induction ds rs arbitrary: ws rule: fits_rev.induct)
  case (1 cs)
  then show ?case by (auto simp: list_ex_iff comp_def)
next
  case (2 a as)
  then show ?case by simp
next
  case (3 a as c cs)
  then show ?case by auto
qed

lemma fits_refl [simp]: "fits a a"
  by (simp add: fits_def fits_rev_refl)

lemma fits_Nil [simp]: "fits [] s"
  by (simp add: fits_def)

lemma fits_trans: "fits a b \<Longrightarrow> fits b c \<Longrightarrow> fits a c"
  unfolding fits_def by (rule fits_rev_trans)

lemma fits_length: "fits a s \<Longrightarrow> length a \<le> length s"
  unfolding fits_def using fits_rev_length [of "rev a" "rev s"] by simp

lemma broadcast_shapes_fits: "broadcast_shapes a b = Some s \<Longrightarrow> fits a s \<and> fits b s"
  unfolding broadcast_shapes_def fits_def using bc_rev_fits [of "rev a" "rev b" "rev s"] by auto

lemma broadcast_shapes_exists:
  "fits a s \<Longrightarrow> fits b s \<Longrightarrow> \<exists>w. broadcast_shapes a b = Some w \<and> fits w s"
  unfolding broadcast_shapes_def fits_def
  using bc_rev_exists [of "rev a" "rev s" "rev b"] by auto

lemma broadcast_shapes_absorb:
  "fits a s \<Longrightarrow> broadcast_shapes a s = Some s" "fits a s \<Longrightarrow> broadcast_shapes s a = Some s"
  unfolding broadcast_shapes_def fits_def using bc_rev_absorb [of "rev a" "rev s"] by auto

lemma broadcast_shapes_comm: "broadcast_shapes a b = broadcast_shapes b a"
  unfolding broadcast_shapes_def by (simp add: bc_rev_comm)

lemma broadcast_shapes_same [simp]: "broadcast_shapes a a = Some a"
  by (simp add: broadcast_shapes_absorb)

lemma broadcast_shapes_Nil [simp]: "broadcast_shapes a [] = Some a" "broadcast_shapes [] a = Some a"
  by (simp_all add: broadcast_shapes_absorb)

lemma fits_iff_broadcast: "fits a s \<longleftrightarrow> broadcast_shapes a s = Some s"
  using broadcast_shapes_absorb(1) broadcast_shapes_fits by blast

lemma texpand_nat:
  "texpand t (map int s) = (if fits (shape t) s then Inr (broadcast_to s t) else Inl RuntimeError)"
proof (cases "expand_rev (rev (shape t)) (map int (rev s))")
  case None
  then have "\<not> fits (shape t) s"
    unfolding fits_def using expand_rev_fits [of "rev (shape t)" "rev s" "rev s"] by auto
  with None show ?thesis by (simp add: texpand_def rev_map)
next
  case (Some ws)
  then have "ws = rev s \<and> fits (shape t) s"
    unfolding fits_def using expand_rev_fits [of "rev (shape t)" "rev s" ws] by auto
  with Some show ?thesis by (simp add: texpand_def rev_map broadcast_to_def)
qed

section \<open>Evaluating element-wise expressions\<close>

lemma evaluates_leaf: "fits (shape a) s \<Longrightarrow> evaluates s (Inr a) (den a)"
  by (simp add: evaluates_def)

lemma evaluates_scalar: "evaluates s (Inr (scalar c)) (\<lambda>i. c)"
  by (simp add: evaluates_def scalar_def den_def bidx_def entry_def)

lemma evaluates_binop:
  assumes x: "evaluates s x g" and y: "evaluates s y h"
  shows "evaluates s (lift2 (binop f) x y) (\<lambda>i. f (g i) (h i))"
proof -
  from x obtain a where a: "x = Inr a" "fits (shape a) s" "\<And>i. i \<in> set (indices s) \<Longrightarrow> den a i = g i"
    by (auto simp: evaluates_def)
  from y obtain b where b: "y = Inr b" "fits (shape b) s" "\<And>i. i \<in> set (indices s) \<Longrightarrow> den b i = h i"
    by (auto simp: evaluates_def)
  from broadcast_shapes_exists [OF a(2) b(2)]
  obtain w where w: "broadcast_shapes (shape a) (shape b) = Some w" "fits w s" by blast
  from broadcast_shapes_fits [OF w(1)] have fw: "fits (shape a) w" "fits (shape b) w" by simp_all
  let ?c = "tabulate w (\<lambda>i. f (entry a (bidx (shape a) i)) (entry b (bidx (shape b) i)))"
  have r: "lift2 (binop f) x y = Inr ?c"
    using a(1) b(1) w(1) by (simp add: lift2_def binop_def)
  have "den ?c i = f (g i) (h i)" if i: "i \<in> set (indices s)" for i
  proof -
    have len: "length w \<le> length i"
      using fits_length [OF w(2)] indices_length [OF i] by simp
    have "den ?c i = f (entry a (bidx (shape a) (bidx w i))) (entry b (bidx (shape b) (bidx w i)))"
      using bidx_valid [OF w(2) i] by (simp add: den_def entry_tabulate)
    also have "\<dots> = f (den a i) (den b i)"
      by (simp add: den_def bidx_bidx [OF fw(1) len] bidx_bidx [OF fw(2) len])
    finally show ?thesis using a(3) [OF i] b(3) [OF i] by simp
  qed
  with r w(2) show ?thesis by (auto simp: evaluates_def)
qed

lemma evaluates_tmap:
  assumes x: "evaluates s x g"
  shows "evaluates s (tmap f x) (\<lambda>i. f (g i))"
proof -
  from x obtain a where a: "x = Inr a" "fits (shape a) s" "\<And>i. i \<in> set (indices s) \<Longrightarrow> den a i = g i"
    by (auto simp: evaluates_def)
  have "den (tabulate (shape a) (\<lambda>i. f (entry a i))) i = f (g i)" if i: "i \<in> set (indices s)" for i
    using bidx_valid [OF a(2) i] a(3) [OF i] by (simp add: den_def entry_tabulate)
  with a(1,2) show ?thesis by (auto simp: evaluates_def tmap_def)
qed

lemmas evaluates_ops =
  evaluates_binop [of _ _ _ _ _ "(+)", folded tadd_def]
  evaluates_binop [of _ _ _ _ _ "(-)", folded tsub_def]
  evaluates_binop [of _ _ _ _ _ "(*)", folded tmul_def]
  evaluates_binop [of _ _ _ _ _ "(/)", folded tdiv_def]

lemma rshape_Inr [simp]: "rshape (Inr a) = Some (shape a)"
  by (simp add: rshape_def)

lemma rshape_binop:
  "rshape (lift2 (binop f) x y) =
     (case rshape x of None \<Rightarrow> None
      | Some a \<Rightarrow> (case rshape y of None \<Rightarrow> None | Some b \<Rightarrow> broadcast_shapes a b))"
  by (cases x; cases y) (auto simp: rshape_def lift2_def binop_def split: option.splits)

lemma rshape_tmap [simp]: "rshape (tmap f x) = rshape x"
  by (cases x) (simp_all add: rshape_def tmap_def)

lemmas rshape_ops [simp] =
  rshape_binop [of "(+)", folded tadd_def]
  rshape_binop [of "(-)", folded tsub_def]
  rshape_binop [of "(*)", folded tmul_def]
  rshape_binop [of "(/)", folded tdiv_def]

lemma shape_scalar [simp]: "shape (scalar c) = []"
  by (simp add: scalar_def)

lemma evaluates_result:
  assumes "evaluates s x g" and "rshape x = Some s"
  shows "\<exists>r. x = Inr r \<and> shape r = s \<and> (\<forall>i \<in> set (indices s). entry r i = g i)"
  using assms by (auto simp: evaluates_def rshape_def den_def bidx_self)

section \<open>The marginal log-probabilities\<close>

lemma tall_tabulate: "tall P (tabulate s f) = list_all (\<lambda>i. P (f i)) (indices s)"
  by (simp add: tall_def list_all_iff entry_tabulate)

lemma bb_inv_unvalidated [simp]: "bb_inv (self\<lparr>bb_validate_args := b\<rparr>) = bb_inv self"
  by (simp add: bb_inv_def concentration1_def concentration0_def)

lemma gp_inv_unvalidated [simp]: "gp_inv (self\<lparr>gp_validate_args := b\<rparr>) = gp_inv self"
  by (simp add: gp_inv_def concentration_def rate_def)

lemma BetaBinomial_log_prob_split:
  "BetaBinomial_log_prob lgamma self value =
     ebind (if bb_validate_args self then BetaBinomial_validate_sample self value else Inr ())
       (\<lambda>_. BetaBinomial_log_prob lgamma (self\<lparr>bb_validate_args := False\<rparr>) value)"
  by (simp add: BetaBinomial_log_prob_def concentration1_def concentration0_def)

lemma GammaPoisson_log_prob_split:
  "GammaPoisson_log_prob lgamma logf self value =
     ebind (if gp_validate_args self then GammaPoisson_validate_sample self value else Inr ())
       (\<lambda>_. GammaPoisson_log_prob lgamma logf (self\<lparr>gp_validate_args := False\<rparr>) value)"
  by (simp add: GammaPoisson_log_prob_def concentration_def rate_def)

lemma BetaBinomial_unvalidated_evaluates:
  assumes inv: "bb_inv self" and off: "\<not> bb_validate_args self"
    and f: "fits (shape value) s" "fits (bb_batch_shape self) s"
  shows "evaluates s (BetaBinomial_log_prob lgamma self value) (\<lambda>i.
           beta_binomial_spec lgamma (den (bb_total_count self) i) (den value i)
             (den (concentration1 self) i) (den (concentration0 self) i))"
proof -
  from inv have sh: "shape (bb_total_count self) = bb_batch_shape self"
    "shape (concentration1 self) = bb_batch_shape self"
    "shape (concentration0 self) = bb_batch_shape self"
    by (simp_all add: bb_inv_def)
  show ?thesis
    unfolding BetaBinomial_log_prob_def Let_def log_beta_def beta_binomial_spec_def
      log_beta_spec_def
    by (simp only: off if_False ebind_simps,
        intro evaluates_ops evaluates_tmap evaluates_leaf evaluates_scalar)
      (simp_all add: sh f)
qed

lemma BetaBinomial_unvalidated_shape:
  assumes inv: "bb_inv self" and off: "\<not> bb_validate_args self"
    and bc: "broadcast_shapes (shape value) (bb_batch_shape self) = Some s"
  shows "rshape (BetaBinomial_log_prob lgamma self value) = Some s"
proof -
  from inv have sh: "shape (bb_total_count self) = bb_batch_shape self"
    "shape (concentration1 self) = bb_batch_shape self"
    "shape (concentration0 self) = bb_batch_shape self"
    by (simp_all add: bb_inv_def)
  from broadcast_shapes_fits [OF bc] have f: "fits (shape value) s" "fits (bb_batch_shape self) s"
    by simp_all
  note bcs = bc bc [unfolded broadcast_shapes_comm [of "shape value"]]
    broadcast_shapes_absorb [OF f(1)] broadcast_shapes_absorb [OF f(2)]
  show ?thesis
    using off by (simp add: BetaBinomial_log_prob_def Let_def log_beta_def sh bcs)
qed

lemma GammaPoisson_unvalidated_evaluates:
  assumes inv: "gp_inv self" and off: "\<not> gp_validate_args self"
    and f: "fits (shape value) s" "fits (gp_batch_shape self) s"
  shows "evaluates s (GammaPoisson_log_prob lgamma logf self value) (\<lambda>i.
           gamma_poisson_spec lgamma logf (den (concentration self) i) (den (rate self) i)
             (den value i))"
proof -
  from inv have sh: "shape (concentration self) = gp_batch_shape self"
    "shape (rate self) = gp_batch_shape self"
    by (simp_all add: gp_inv_def)
  show ?thesis
    unfolding GammaPoisson_log_prob_def Let_def log_beta_def gamma_poisson_spec_def
      log_beta_spec_def
    by (simp only: off if_False ebind_simps,
        intro evaluates_ops evaluates_tmap evaluates_leaf evaluates_scalar)
      (simp_all add: sh f)
qed

lemma GammaPoisson_unvalidated_shape:
  assumes inv: "gp_inv self" and off: "\<not> gp_validate_args self"
    and bc: "broadcast_shapes (shape value) (gp_batch_shape self) = Some s"
  shows "rshape (GammaPoisson_log_prob lgamma logf self value) = Some s"
proof -
  from inv have sh: "shape (concentration self) = gp_batch_shape self"
    "shape (rate self) = gp_batch_shape self"
    by (simp_all add: gp_inv_def)
  from broadcast_shapes_fits [OF bc] have f: "fits (shape value) s" "fits (gp_batch_shape self) s"
    by simp_all
  note bcs = bc bc [unfolded broadcast_shapes_comm [of "shape value"]]
    broadcast_shapes_absorb [OF f(1)] broadcast_shapes_absorb [OF f(2)]
  show ?thesis
    using off by (simp add: GammaPoisson_log_prob_def Let_def log_beta_def sh bcs)
qed

lemma BetaBinomial_validate_sample_ok:
  assumes inv: "bb_inv self"
    and bc: "broadcast_shapes (shape value) (bb_batch_shape self) = Some s"
    and supp: "bb_in_support self value s"
  shows "BetaBinomial_validate_sample self value = Inr ()"
proof -
  from inv have sh: "shape (bb_total_count self) = bb_batch_shape self"
    by (simp add: bb_inv_def)
  show ?thesis
    using supp
    by (auto simp: BetaBinomial_validate_sample_def binop_def sh bc tall_tabulate
        bb_in_support_def den_def list_all_iff)
qed

lemma BetaBinomial_log_prob_general:
  assumes inv: "bb_inv self"
    and bc: "broadcast_shapes (shape value) (bb_batch_shape self) = Some s"
    and supp: "bb_in_support self value s"
  shows "\<exists>r. BetaBinomial_log_prob lgamma self value = Inr r \<and> shape r = s \<and>
           (\<forall>i \<in> set (indices s). entry r i =
              beta_binomial_spec lgamma (den (bb_total_count self) i) (den value i)
                (den (concentration1 self) i) (den (concentration0 self) i))"
proof -
  let ?self0 = "self\<lparr>bb_validate_args := False\<rparr>"
  from broadcast_shapes_fits [OF bc] have f: "fits (shape value) s" "fits (bb_batch_shape self) s"
    by simp_all
  have lp: "BetaBinomial_log_prob lgamma self value = BetaBinomial_log_prob lgamma ?self0 value"
    using BetaBinomial_validate_sample_ok [OF inv bc supp]
    by (simp add: BetaBinomial_log_prob_split [of lgamma self])
  have ev: "evaluates s (BetaBinomial_log_prob lgamma ?self0 value) (\<lambda>i.
              beta_binomial_spec lgamma (den (bb_total_count self) i) (den value i)
                (den (concentration1 self) i) (den (concentration0 self) i))"
    using BetaBinomial_unvalidated_evaluates [of ?self0 "value" s lgamma] inv f
    by (simp add: concentration1_def concentration0_def)
  have rs: "rshape (BetaBinomial_log_prob lgamma ?self0 value) = Some s"
    using BetaBinomial_unvalidated_shape [of ?self0 "value" s lgamma] inv bc by simp
  from evaluates_result [OF ev rs] lp show ?thesis by simp
qed

lemma bb_2_3_10_eq:
  "bb_2_3_10 = \<lparr>bb_beta = \<lparr>b_concentration1 = scalar 2, b_concentration0 = scalar 3,
                           b_batch_shape = [], b_validate_args = False\<rparr>,
                 bb_unexpanded_params = 0, bb_total_count = scalar 10,
                 bb_batch_shape = [], bb_validate_args = False\<rparr>"
  by code_simp

lemma entry_scalar [simp]: "entry (scalar c) [] = c"
  by (simp add: entry_def scalar_def)

lemma tabulate_Nil: "tabulate [] f = scalar (f [])"
  by (simp add: tabulate_def scalar_def)

lemma bidx_Nil [simp]: "bidx [] i = []"
  by (simp add: bidx_def)

lemma binop_scalar [simp]: "binop f (scalar a) (scalar b) = Inr (scalar (f a b))"
  by (simp add: binop_def tabulate_Nil)

lemma lift2_Inr [simp]: "lift2 f (Inr a) (Inr b) = f a b"
  by (simp add: lift2_def)

lemma tmap_scalar [simp]: "tmap f (Inr (scalar a)) = Inr (scalar (f a))"
  by (simp add: tmap_def tabulate_Nil)

lemma BetaBinomial_log_prob_example:
  "BetaBinomial_log_prob lgamma bb_2_3_10 (scalar 3)
     = Inr (scalar (lgamma 11 - lgamma 4 - lgamma 8 + log_beta_spec lgamma 5 10
                     - log_beta_spec lgamma 3 2))"
  by (simp add: bb_2_3_10_eq BetaBinomial_log_prob_def Let_def log_beta_def log_beta_spec_def
      tadd_def tsub_def concentration1_def concentration0_def)

text \<open>
  C1.  For a value in the support, \<open>BetaBinomial.log_prob\<close> returns, at every index of the
  broadcast shape, \<open>lgamma(n+1) - lgamma(k+1) - lgamma(n-k+1) + log_beta(k+\<alpha>, n-k+\<beta>) -
  log_beta(\<beta>, \<alpha>)\<close> of the entries \<open>n\<close>, \<open>k\<close>, \<open>\<alpha>\<close>, \<open>\<beta>\<close> of total_count, the value,
  concentration1 and concentration0 that the index reads, whether validation is on or off;
  and \<open>BetaBinomial(2., 3., total_count=10).log_prob(3)\<close> is \<open>lgamma(11) - lgamma(4) -
  lgamma(8) + log_beta(5, 10) - log_beta(3, 2)\<close>.  \<open>lgamma\<close> is any function.
\<close>

theorem BetaBinomial_log_prob_closed_form:
  "(bb_inv self \<and> broadcast_shapes (shape value) (bb_batch_shape self) = Some s
      \<and> bb_in_support self value s \<longrightarrow>
    (\<exists>r. BetaBinomial_log_prob lgamma self value = Inr r \<and> shape r = s \<and>
       (\<forall>i \<in> set (indices s). entry r i =
          beta_binomial_spec lgamma (den (bb_total_count self) i) (den value i)
            (den (concentration1 self) i) (den (concentration0 self) i))))
   \<and> BetaBinomial_log_prob lgamma bb_2_3_10 (scalar 3)
       = Inr (scalar (lgamma 11 - lgamma 4 - lgamma 8 + log_beta_spec lgamma 5 10
                       - log_beta_spec lgamma 3 2))"
  using BetaBinomial_log_prob_general [of self "value" s lgamma]
    BetaBinomial_log_prob_example [of lgamma]
  by blast

theorem BetaBinomial_log_prob_closed_form_witness:
  "bb_inv bb_batch2
   \<and> broadcast_shapes (shape \<lparr>shape = [2], entries = [0, 1]\<rparr>) (bb_batch_shape bb_batch2) = Some [2]
   \<and> bb_in_support bb_batch2 \<lparr>shape = [2], entries = [0, 1]\<rparr> [2]
   \<and> (\<exists>r. BetaBinomial_log_prob (\<lambda>x. x) bb_batch2 \<lparr>shape = [2], entries = [0, 1]\<rparr> = Inr r
          \<and> shape r = [2]
          \<and> (\<forall>i \<in> set (indices [2]). entry r i =
               beta_binomial_spec (\<lambda>x. x) (den (bb_total_count bb_batch2) i)
                 (den \<lparr>shape = [2], entries = [0, 1]\<rparr> i)
                 (den (concentration1 bb_batch2) i) (den (concentration0 bb_batch2) i)))"
proof -
  have h1: "bb_inv bb_batch2" by code_simp
  have h2: "broadcast_shapes (shape \<lparr>shape = [2], entries = [0, 1]\<rparr>) (bb_batch_shape bb_batch2) = Some [2]"
    by code_simp
  have h3: "bb_in_support bb_batch2 \<lparr>shape = [2], entries = [0, 1]\<rparr> [2]" by code_simp
  show ?thesis
    using BetaBinomial_log_prob_closed_form [of bb_batch2 "\<lparr>shape = [2], entries = [0, 1]\<rparr>" "[2]" "\<lambda>x. x"]
      h1 h2 h3
    by blast
qed

lemma GammaPoisson_log_prob_general:
  assumes inv: "gp_inv self"
    and bc: "broadcast_shapes (shape value) (gp_batch_shape self) = Some s"
    and supp: "tall nonnegative_integer value"
  shows "\<exists>r. GammaPoisson_log_prob lgamma logf self value = Inr r \<and> shape r = s \<and>
           (\<forall>i \<in> set (indices s). entry r i =
              gamma_poisson_spec lgamma logf (den (concentration self) i) (den (rate self) i)
                (den value i))"
proof -
  let ?self0 = "self\<lparr>gp_validate_args := False\<rparr>"
  from broadcast_shapes_fits [OF bc] have f: "fits (shape value) s" "fits (gp_batch_shape self) s"
    by simp_all
  have lp: "GammaPoisson_log_prob lgamma logf self value
              = GammaPoisson_log_prob lgamma logf ?self0 value"
    using supp
    by (simp add: GammaPoisson_log_prob_split [of lgamma logf self] GammaPoisson_validate_sample_def)
  have ev: "evaluates s (GammaPoisson_log_prob lgamma logf ?self0 value) (\<lambda>i.
              gamma_poisson_spec lgamma logf (den (concentration self) i) (den (rate self) i)
                (den value i))"
    using GammaPoisson_unvalidated_evaluates [of ?self0 "value" s lgamma logf] inv f
    by (simp add: concentration_def rate_def)
  have rs: "rshape (GammaPoisson_log_prob lgamma logf ?self0 value) = Some s"
    using GammaPoisson_unvalidated_shape [of ?self0 "value" s lgamma logf] inv bc by simp
  from evaluates_result [OF ev rs] lp show ?thesis by simp
qed

text \<open>
  C5.  For a value whose entries are non-negative integers, \<open>GammaPoisson.log_prob\<close>
  returns, at every index of the broadcast shape, \<open>- log_beta(c, v+1) - log(c+v) + c * log(r)
  - (c+v) * log(1+r)\<close> of the entries \<open>c\<close>, \<open>r\<close>, \<open>v\<close> of concentration, rate and the value
  that the index reads, whether validation is on or off.  \<open>lgamma\<close> and \<open>logf\<close> are any
  functions.
\<close>

theorem GammaPoisson_log_prob_closed_form:
  "gp_inv self \<and> broadcast_shapes (shape value) (gp_batch_shape self) = Some s
      \<and> tall nonnegative_integer value \<longrightarrow>
    (\<exists>r. GammaPoisson_log_prob lgamma logf self value = Inr r \<and> shape r = s \<and>
       (\<forall>i \<in> set (indices s). entry r i =
          gamma_poisson_spec lgamma logf (den (concentration self) i) (den (rate self) i)
            (den value i)))"
  using GammaPoisson_log_prob_general [of self "value" s lgamma logf] by blast

theorem GammaPoisson_log_prob_closed_form_witness:
  "gp_inv (fst gp_batch1)
   \<and> broadcast_shapes (shape \<lparr>shape = [2], entries = [0, 3]\<rparr>) (gp_batch_shape (fst gp_batch1)) = Some [2]
   \<and> tall nonnegative_integer \<lparr>shape = [2], entries = [0, 3]\<rparr>
   \<and> (\<exists>r. GammaPoisson_log_prob (\<lambda>x. x) (\<lambda>x. x) (fst gp_batch1) \<lparr>shape = [2], entries = [0, 3]\<rparr> = Inr r
          \<and> shape r = [2]
          \<and> (\<forall>i \<in> set (indices [2]). entry r i =
               gamma_poisson_spec (\<lambda>x. x) (\<lambda>x. x) (den (concentration (fst gp_batch1)) i)
                 (den (rate (fst gp_batch1)) i) (den \<lparr>shape = [2], entries = [0, 3]\<rparr> i)))"
proof -
  have h1: "gp_inv (fst gp_batch1)" by code_simp
  have h2: "broadcast_shapes (shape \<lparr>shape = [2], entries = [0, 3]\<rparr>) (gp_batch_shape (fst gp_batch1)) = Some [2]"
    by code_simp
  have h3: "tall nonnegative_integer \<lparr>shape = [2], entries = [0, 3]\<rparr>" by code_simp
  show ?thesis
    using GammaPoisson_log_prob_closed_form [of "fst gp_batch1" "\<lparr>shape = [2], entries = [0, 3]\<rparr>" "[2]" "\<lambda>x. x" "\<lambda>x. x"]
      h1 h2 h3
    by blast
qed

section \<open>Mean and variance of GammaPoisson\<close>

lemma GammaPoisson_moments_general:
  assumes inv: "gp_inv self"
  shows "\<exists>m v. GammaPoisson_mean self = Inr m \<and> GammaPoisson_variance self = Inr v
           \<and> shape m = gp_batch_shape self \<and> shape v = gp_batch_shape self
           \<and> (\<forall>i \<in> set (indices (gp_batch_shape self)).
                 entry m i = entry (concentration self) i / entry (rate self) i
               \<and> entry v i = entry (concentration self) i / (entry (rate self) i)\<^sup>2
                                * (1 + entry (rate self) i))"
proof -
  let ?s = "gp_batch_shape self"
  from inv have sh: "shape (concentration self) = ?s" "shape (rate self) = ?s"
    by (simp_all add: gp_inv_def)
  have em: "evaluates ?s (GammaPoisson_mean self)
              (\<lambda>i. den (concentration self) i / den (rate self) i)"
    unfolding GammaPoisson_mean_def
    by (intro evaluates_ops evaluates_tmap evaluates_leaf evaluates_scalar) (simp_all add: sh)
  have rm: "rshape (GammaPoisson_mean self) = Some ?s"
    by (simp add: GammaPoisson_mean_def sh)
  have ev: "evaluates ?s (GammaPoisson_variance self)
              (\<lambda>i. den (concentration self) i / (den (rate self) i)\<^sup>2 * (1 + den (rate self) i))"
    unfolding GammaPoisson_variance_def
    by (intro evaluates_ops evaluates_tmap evaluates_leaf evaluates_scalar) (simp_all add: sh)
  have rv: "rshape (GammaPoisson_variance self) = Some ?s"
    by (simp add: GammaPoisson_variance_def sh)
  from evaluates_result [OF em rm] evaluates_result [OF ev rv]
  show ?thesis by (auto simp: den_def sh bidx_self)
qed

lemma gp_5_2_eq:
  "gp_5_2 = \<lparr>gp_gamma = \<lparr>g_concentration = scalar 5, g_rate = scalar 2,
                         g_batch_shape = [], g_validate_args = False\<rparr>,
             gp_unexpanded_params = 0, gp_batch_shape = [], gp_validate_args = False\<rparr>"
  by code_simp

lemma GammaPoisson_moments_example:
  "GammaPoisson_mean gp_5_2 = Inr (scalar 2.5) \<and> GammaPoisson_variance gp_5_2 = Inr (scalar 3.75)"
  by (simp add: gp_5_2_eq GammaPoisson_mean_def GammaPoisson_variance_def concentration_def
      rate_def tdiv_def tmul_def tadd_def)

text \<open>
  C8.  For a GammaPoisson whose parameters have the batch shape and whose rate is positive,
  the mean is \<open>concentration / rate\<close> and the variance is \<open>concentration / rate\<^sup>2 * (1 + rate)\<close>,
  entry by entry; \<open>GammaPoisson(5., 2.)\<close> has mean 2.5 and variance 3.75.  Entries are
  real numbers, so the rate is taken positive, as the parameter constraint has it: a zero
  divisor is outside the model.
\<close>

theorem GammaPoisson_mean_variance:
  "(gp_inv self \<and> tall positive (rate self) \<longrightarrow>
     (\<exists>m v. GammaPoisson_mean self = Inr m \<and> GammaPoisson_variance self = Inr v
        \<and> shape m = gp_batch_shape self \<and> shape v = gp_batch_shape self
        \<and> (\<forall>i \<in> set (indices (gp_batch_shape self)).
              entry m i = entry (concentration self) i / entry (rate self) i
            \<and> entry v i = entry (concentration self) i / (entry (rate self) i)\<^sup>2
                             * (1 + entry (rate self) i))))
   \<and> GammaPoisson_mean gp_5_2 = Inr (scalar 2.5)
   \<and> GammaPoisson_variance gp_5_2 = Inr (scalar 3.75)"
  using GammaPoisson_moments_general [of self] GammaPoisson_moments_example by blast

theorem GammaPoisson_mean_variance_witness:
  "gp_inv (fst gp_batch1) \<and> tall positive (rate (fst gp_batch1))
   \<and> (\<exists>m v. GammaPoisson_mean (fst gp_batch1) = Inr m \<and> GammaPoisson_variance (fst gp_batch1) = Inr v
        \<and> shape m = gp_batch_shape (fst gp_batch1) \<and> shape v = gp_batch_shape (fst gp_batch1)
        \<and> (\<forall>i \<in> set (indices (gp_batch_shape (fst gp_batch1))).
              entry m i = entry (concentration (fst gp_batch1)) i / entry (rate (fst gp_batch1)) i
            \<and> entry v i = entry (concentration (fst gp_batch1)) i / (entry (rate (fst gp_batch1)) i)\<^sup>2
                             * (1 + entry (rate (fst gp_batch1)) i)))"
proof -
  have h1: "gp_inv (fst gp_batch1)" by code_simp
  have h2: "tall positive (rate (fst gp_batch1))" by code_simp
  show ?thesis
    using GammaPoisson_mean_variance [of "fst gp_batch1"] h1 h2 by blast
qed

section \<open>Enumerating the support of BetaBinomial\<close>

lemma foldl_max: "foldl max x xs = Max (set (x # xs))" for x :: real
  using Max.set_eq_fold [of x xs] by (simp add: foldl_conv_fold max.commute)

lemma foldl_min: "foldl min x xs = Min (set (x # xs))" for x :: real
  using Min.set_eq_fold [of x xs] by (simp add: foldl_conv_fold min.commute)

lemma tmax_eq:
  assumes "indices (shape t) \<noteq> []"
  shows "tmax t = Inr (Max (entry t ` set (indices (shape t))))"
proof -
  from assms obtain i rest where "indices (shape t) = i # rest" by (cases "indices (shape t)") auto
  then show ?thesis by (simp add: tmax_def foldl_max)
qed

lemma tmin_eq:
  assumes "indices (shape t) \<noteq> []"
  shows "tmin t = Inr (Min (entry t ` set (indices (shape t))))"
proof -
  from assms obtain i rest where "indices (shape t) = i # rest" by (cases "indices (shape t)") auto
  then show ?thesis by (simp add: tmin_def foldl_min)
qed

lemma indices_ones: "indices (replicate m (Suc 0)) = [replicate m 0]"
  by (induction m) simp_all

lemma indices_column:
  "indices (n # replicate m (Suc 0)) = map (\<lambda>k. k # replicate m 0) [0..<n]"
  by (simp add: indices_ones concat_map_singleton del: upt_Suc)

lemma column_tabulate:
  "\<lparr>shape = n # replicate m 1, entries = map real [0..<n]\<rparr>
     = tabulate (n # replicate m 1) (\<lambda>i. real (hd i))"
  by (simp add: tabulate_def indices_column comp_def del: indices.simps upt_Suc)

lemma view_column:
  "view \<lparr>shape = [Suc n], entries = es\<rparr> (- 1 # replicate m 1)
     = Inr \<lparr>shape = Suc n # replicate m 1, entries = es\<rparr>"
proof -
  have 1: "filter (\<lambda>z. z \<noteq> - 1) (replicate m (1::int)) = replicate m 1"
    by (induction m) simp_all
  have 2: "filter (\<lambda>z. z = - 1) (replicate m (1::int)) = []"
    by (induction m) simp_all
  have 3: "\<not> list_ex (\<lambda>z. z < - 1) (replicate m (1::int))"
    by (simp add: list_ex_iff)
  have 4: "map (\<lambda>z. if z = - 1 then Suc n else nat z) (replicate m (1::int)) = replicate m 1"
    by (induction m) simp_all
  show ?thesis
    by (simp add: view_def Let_def 1 2 3 4 numel_def del: replicate.simps)
qed

lemma expand_rev_column:
  "expand_rev (replicate (length zs) 1 @ [d]) (map int zs @ [- 1]) = Some (zs @ [d])"
  by (induction zs) simp_all

lemma bidx_column:
  assumes "length idx = m"
  shows "bidx (Suc n # replicate m 1) (k # idx) = (if n = 0 then 0 else k) # replicate m 0"
proof -
  have "map (\<lambda>(d, j). if d = 1 then 0 else j) (zip (replicate m (1::nat)) js) = replicate m 0"
    if "length js = m" for js :: "nat list"
    using that by (induction m arbitrary: js) (auto simp: length_Suc_conv)
  with assms show ?thesis
    by (simp add: bidx_def zip_append [symmetric] del: replicate.simps)
qed

lemma py_int_nat [simp]: "py_int (real n) = int n"
  by (simp add: py_int_def)

lemma arange_Suc: "arange (1 + int n) = Inr \<lparr>shape = [Suc n], entries = map real [0..<Suc n]\<rparr>"
proof -
  have "nat (1 + int n) = Suc n" by simp
  then show ?thesis by (simp add: arange_def del: upt_Suc)
qed

lemma texpand_column:
  "texpand (tabulate (Suc n # replicate (length bs) 1) (\<lambda>i. real (hd i))) (- 1 # map int bs)
     = Inr (tabulate (Suc n # bs) (\<lambda>i. real (hd i)))"
proof -
  let ?V = "tabulate (Suc n # replicate (length bs) 1) (\<lambda>i. real (hd i))"
  have e: "expand_rev (rev (shape ?V)) (rev (- 1 # map int bs)) = Some (rev (Suc n # bs))"
    using expand_rev_column [of "rev bs" "Suc n"] by (simp add: rev_map)
  have "entry ?V (bidx (shape ?V) i) = real (hd i)" if i: "i \<in> set (indices (Suc n # bs))" for i
  proof -
    from i obtain k idx where ki: "i = k # idx" "k < Suc n" "list_all2 (<) idx bs"
      by (auto simp: in_indices_iff list_all2_Cons2)
    then have len: "length idx = length bs" by (simp add: list_all2_lengthD)
    let ?j = "(if n = 0 then 0 else k) # replicate (length bs) 0"
    have b: "bidx (shape ?V) i = ?j"
      using bidx_column [OF len, of n k] ki(1) by simp
    have "list_all2 (<) (replicate m 0) (replicate m (Suc 0))" for m
      by (induction m) simp_all
    then have "?j \<in> set (indices (shape ?V))"
      using ki(2) by (simp add: in_indices_iff del: indices.simps replicate.simps)
    then have "entry ?V ?j = real (hd ?j)"
      using entry_tabulate [of ?j "Suc n # replicate (length bs) 1" "\<lambda>i. real (hd i)"] by simp
    with b ki show ?thesis by auto
  qed
  then have "tabulate (Suc n # bs) (\<lambda>i. entry ?V (bidx (shape ?V) i))
               = tabulate (Suc n # bs) (\<lambda>i. real (hd i))"
    by (intro tabulate_cong) simp
  with e show ?thesis by (simp add: texpand_def del: shape_tabulate)
qed

lemma enumerate_support_homogeneous:
  assumes sh: "shape (bb_total_count self) = bb_batch_shape self"
    and ne: "indices (bb_batch_shape self) \<noteq> []"
    and hom: "\<forall>i \<in> set (indices (bb_batch_shape self)). entry (bb_total_count self) i = real n"
  shows "BetaBinomial_enumerate_support self expand =
           Inr (tabulate (Suc n # (if expand then bb_batch_shape self
                                   else replicate (length (bb_batch_shape self)) 1))
                  (\<lambda>i. real (hd i)))"
proof -
  let ?bs = "bb_batch_shape self"
  have "entry (bb_total_count self) ` set (indices ?bs) = (\<lambda>i. real n) ` set (indices ?bs)"
    using hom by (intro image_cong) auto
  with ne have img: "entry (bb_total_count self) ` set (indices ?bs) = {real n}"
    by (simp add: image_constant_conv)
  have mx: "tmax (bb_total_count self) = Inr (real n)"
    using tmax_eq [of "bb_total_count self"] ne by (simp add: sh img)
  have mn: "tmin (bb_total_count self) = Inr (real n)"
    using tmin_eq [of "bb_total_count self"] ne by (simp add: sh img)
  have "BetaBinomial_enumerate_support self expand =
          ebind (arange (1 + int n)) (\<lambda>values.
          ebind (view values (- 1 # replicate (length ?bs) 1)) (\<lambda>values.
            if expand then texpand values (- 1 # map int ?bs) else Inr values))"
    by (simp add: BetaBinomial_enumerate_support_def mx mn del: replicate.simps)
  also have "\<dots> = (if expand
                     then texpand (tabulate (Suc n # replicate (length ?bs) 1) (\<lambda>i. real (hd i)))
                            (- 1 # map int ?bs)
                     else Inr (tabulate (Suc n # replicate (length ?bs) 1) (\<lambda>i. real (hd i))))"
    by (simp only: arange_Suc ebind_simps view_column column_tabulate)
  also have "\<dots> = Inr (tabulate (Suc n # (if expand then ?bs else replicate (length ?bs) 1))
                         (\<lambda>i. real (hd i)))"
    by (simp only: texpand_column if_distrib [of Inr] if_distrib [of "\<lambda>s. tabulate (Suc n # s) (\<lambda>i. real (hd i))"])
  finally show ?thesis .
qed

lemma enumerate_support_inhomogeneous:
  assumes sh: "shape (bb_total_count self) = bb_batch_shape self"
    and int: "tall nonnegative_integer (bb_total_count self)"
    and i: "i \<in> set (indices (bb_batch_shape self))"
    and j: "j \<in> set (indices (bb_batch_shape self))"
    and diff: "entry (bb_total_count self) i \<noteq> entry (bb_total_count self) j"
  shows "BetaBinomial_enumerate_support self expand = Inl NotImplementedError"
proof -
  let ?bs = "bb_batch_shape self"
  let ?S = "entry (bb_total_count self) ` set (indices ?bs)"
  from i have ne: "indices ?bs \<noteq> []" by auto
  have fin: "finite ?S" and nemp: "?S \<noteq> {}" using i by auto
  have mx: "tmax (bb_total_count self) = Inr (Max ?S)"
    using tmax_eq [of "bb_total_count self"] ne by (simp add: sh)
  have mn: "tmin (bb_total_count self) = Inr (Min ?S)"
    using tmin_eq [of "bb_total_count self"] ne by (simp add: sh)
  have "Max ?S \<in> ?S" using fin nemp by (rule Max_in)
  then obtain k where k: "k \<in> set (indices ?bs)" "Max ?S = entry (bb_total_count self) k"
    by auto
  from int k(1) have "nonnegative_integer (entry (bb_total_count self) k)"
    by (simp add: tall_def sh list_all_iff)
  with k(2) have whole: "real_of_int (py_int (Max ?S)) = Max ?S"
    by (simp add: nonnegative_integer_def py_int_def)
  have "Min ?S \<le> entry (bb_total_count self) i" "Min ?S \<le> entry (bb_total_count self) j"
    "entry (bb_total_count self) i \<le> Max ?S" "entry (bb_total_count self) j \<le> Max ?S"
    using fin i j by simp_all
  with diff have "Min ?S \<noteq> Max ?S" by linarith
  with whole show ?thesis
    by (simp add: BetaBinomial_enumerate_support_def mx mn)
qed

text \<open>
  C6.  For a BetaBinomial with at least one batch element whose total_count is the integer
  \<open>n\<close> at every entry, \<open>enumerate_support\<close> returns the tensor of shape \<open>(n + 1,)\<close> followed by
  the batch shape (expand flag true) or by one dimension of size 1 for each batch dimension
  (flag false), whose entry at each index is the first component of the index.  It has at
  least one position of the other dimensions, and at every such position it reads
  \<open>0, 1, ..., n\<close> along the leading dimension: ascending and without duplicates.  For a total_count of non-negative integers
  (the parameter constraint) with two entries that differ, it raises NotImplementedError.
\<close>

theorem enumerate_support_values:
  "(bb_inv self \<and> indices (bb_batch_shape self) \<noteq> []
      \<and> (\<forall>i \<in> set (indices (bb_batch_shape self)). entry (bb_total_count self) i = real n) \<longrightarrow>
     (\<exists>r rest. BetaBinomial_enumerate_support self expand = Inr r
        \<and> rest = (if expand then bb_batch_shape self
                    else replicate (length (bb_batch_shape self)) 1)
        \<and> r = tabulate (Suc n # rest) (\<lambda>i. real (hd i))
        \<and> shape r = Suc n # rest \<and> indices rest \<noteq> []
        \<and> (\<forall>idx \<in> set (indices rest).
              map (\<lambda>k. entry r (k # idx)) [0..<Suc n] = map real [0..<Suc n])))
   \<and> (bb_inv self' \<and> tall nonnegative_integer (bb_total_count self')
        \<and> i \<in> set (indices (bb_batch_shape self')) \<and> j \<in> set (indices (bb_batch_shape self'))
        \<and> entry (bb_total_count self') i \<noteq> entry (bb_total_count self') j \<longrightarrow>
      BetaBinomial_enumerate_support self' expand' = Inl NotImplementedError)"
proof (intro conjI impI)
  assume h: "bb_inv self \<and> indices (bb_batch_shape self) \<noteq> []
      \<and> (\<forall>i \<in> set (indices (bb_batch_shape self)). entry (bb_total_count self) i = real n)"
  let ?rest = "if expand then bb_batch_shape self else replicate (length (bb_batch_shape self)) 1"
  let ?r = "tabulate (Suc n # ?rest) (\<lambda>i. real (hd i))"
  from h have r: "BetaBinomial_enumerate_support self expand = Inr ?r"
    using enumerate_support_homogeneous [of self n expand] by (simp add: bb_inv_def)
  have "map (\<lambda>k. entry ?r (k # idx)) [0..<Suc n] = map real [0..<Suc n]"
    if idx: "idx \<in> set (indices ?rest)" for idx
  proof (rule map_cong [OF refl])
    fix k assume "k \<in> set [0..<Suc n]"
    then have "k < Suc n" by auto
    with idx have "k # idx \<in> set (indices (Suc n # ?rest))"
      by (simp add: in_indices_iff del: indices.simps)
    then show "entry ?r (k # idx) = real k"
      using entry_tabulate [of "k # idx" "Suc n # ?rest" "\<lambda>i. real (hd i)"] by simp
  qed
  moreover have "indices ?rest \<noteq> []"
    using h by (simp add: indices_ones del: indices.simps)
  ultimately show "\<exists>r rest. BetaBinomial_enumerate_support self expand = Inr r
        \<and> rest = (if expand then bb_batch_shape self
                    else replicate (length (bb_batch_shape self)) 1)
        \<and> r = tabulate (Suc n # rest) (\<lambda>i. real (hd i))
        \<and> shape r = Suc n # rest \<and> indices rest \<noteq> []
        \<and> (\<forall>idx \<in> set (indices rest).
              map (\<lambda>k. entry r (k # idx)) [0..<Suc n] = map real [0..<Suc n])"
    using r by (intro exI [of _ ?r] exI [of _ ?rest]) simp
next
  assume "bb_inv self' \<and> tall nonnegative_integer (bb_total_count self')
        \<and> i \<in> set (indices (bb_batch_shape self')) \<and> j \<in> set (indices (bb_batch_shape self'))
        \<and> entry (bb_total_count self') i \<noteq> entry (bb_total_count self') j"
  then show "BetaBinomial_enumerate_support self' expand' = Inl NotImplementedError"
    using enumerate_support_inhomogeneous [of self' i j expand'] by (simp add: bb_inv_def)
qed

text \<open>
  C7 (amended).  For a BetaBinomial with at least one batch element whose total_count is
  the integer \<open>n\<close> at every entry, the tensor returned by \<open>enumerate_support\<close> has shape
  \<open>(n + 1,) + batch_shape\<close> when the expand flag is true, and \<open>(n + 1,)\<close> followed by one
  dimension of size 1 for each batch dimension when the flag is false.
\<close>

theorem enumerate_support_shape:
  "bb_inv self \<and> indices (bb_batch_shape self) \<noteq> []
     \<and> (\<forall>i \<in> set (indices (bb_batch_shape self)). entry (bb_total_count self) i = real n) \<longrightarrow>
   (\<exists>r. BetaBinomial_enumerate_support self expand = Inr r
      \<and> shape r = Suc n # (if expand then bb_batch_shape self
                           else replicate (length (bb_batch_shape self)) 1))"
  using enumerate_support_homogeneous [of self n expand] by (simp add: bb_inv_def)

theorem enumerate_support_values_witness:
  "bb_inv bb_batch2 \<and> indices (bb_batch_shape bb_batch2) = [[0], [1]]
   \<and> entry (bb_total_count bb_batch2) [0] = real 1 \<and> entry (bb_total_count bb_batch2) [1] = real 1
   \<and> (\<exists>r rest. BetaBinomial_enumerate_support bb_batch2 True = Inr r
        \<and> rest = (if True then bb_batch_shape bb_batch2
                    else replicate (length (bb_batch_shape bb_batch2)) 1)
        \<and> r = tabulate (Suc 1 # rest) (\<lambda>i. real (hd i))
        \<and> shape r = Suc 1 # rest \<and> indices rest \<noteq> []
        \<and> (\<forall>idx \<in> set (indices rest).
              map (\<lambda>k. entry r (k # idx)) [0..<Suc 1] = map real [0..<Suc 1]))
   \<and> bb_inv bb_inhom \<and> tall nonnegative_integer (bb_total_count bb_inhom)
   \<and> [0] \<in> set (indices (bb_batch_shape bb_inhom)) \<and> [1] \<in> set (indices (bb_batch_shape bb_inhom))
   \<and> entry (bb_total_count bb_inhom) [0] \<noteq> entry (bb_total_count bb_inhom) [1]
   \<and> BetaBinomial_enumerate_support bb_inhom True = Inl NotImplementedError"
proof -
  have h1: "bb_inv bb_batch2" by code_simp
  have h2: "indices (bb_batch_shape bb_batch2) = [[0], [1]]" by code_simp
  have h3: "entry (bb_total_count bb_batch2) [0] = real 1" "entry (bb_total_count bb_batch2) [1] = real 1"
    by code_simp+
  have g1: "bb_inv bb_inhom" by code_simp
  have g2: "tall nonnegative_integer (bb_total_count bb_inhom)" by code_simp
  have g3: "[0] \<in> set (indices (bb_batch_shape bb_inhom))" by code_simp
  have g4: "[1] \<in> set (indices (bb_batch_shape bb_inhom))" by code_simp
  have g5: "entry (bb_total_count bb_inhom) [0] \<noteq> entry (bb_total_count bb_inhom) [1]" by code_simp
  show ?thesis
    using enumerate_support_values [of bb_batch2 1 True bb_inhom "[0]" "[1]" True]
      h1 h2 h3 g1 g2 g3 g4 g5
    by auto
qed

theorem enumerate_support_shape_witness:
  "bb_inv bb_batch2 \<and> indices (bb_batch_shape bb_batch2) = [[0], [1]]
   \<and> entry (bb_total_count bb_batch2) [0] = real 1 \<and> entry (bb_total_count bb_batch2) [1] = real 1
   \<and> (\<exists>r. BetaBinomial_enumerate_support bb_batch2 False = Inr r
         \<and> shape r = Suc 1 # (if False then bb_batch_shape bb_batch2
                               else replicate (length (bb_batch_shape bb_batch2)) 1))"
proof -
  have h1: "bb_inv bb_batch2" by code_simp
  have h2: "indices (bb_batch_shape bb_batch2) = [[0], [1]]" by code_simp
  have h3: "entry (bb_total_count bb_batch2) [0] = real 1" "entry (bb_total_count bb_batch2) [1] = real 1"
    by code_simp+
  show ?thesis
    using enumerate_support_shape [of bb_batch2 1 False] h1 h2 h3 by auto
qed

text \<open>
  C7 as stated fails: for batch shape \<open>(2,)\<close> and total_count 1 the unexpanded support has
  shape \<open>(2, 1)\<close>, not \<open>(2,)\<close>.
\<close>

theorem enumerate_support_unexpanded_shape_counterexample:
  "bb_total_count bb_batch2 = \<lparr>shape = [2], entries = [1, 1]\<rparr>
   \<and> bb_batch_shape bb_batch2 = [2]
   \<and> BetaBinomial_enumerate_support bb_batch2 False = Inr \<lparr>shape = [2, 1], entries = [0, 1]\<rparr>
   \<and> shape \<lparr>shape = [2, 1], entries = [0, 1]\<rparr> \<noteq> [1 + 1]"
  by code_simp

section \<open>The posterior of the latent parameter\<close>

text \<open>
  C2.  \<open>GammaPoisson._posterior_latent_dist\<close> takes the number of observations from the
  first \<open>num_dims\<close> sizes of \<open>obs\<close>, where \<open>BetaBinomial._posterior_latent_dist\<close> takes all
  sizes but the last \<open>num_dims\<close>.  With parameters of batch shape \<open>(1,)\<close> and observations of
  shape \<open>(2, 2, 1)\<close>, four observations that sum to 9, the posterior rate is \<open>3 + 2\<close>, not
  \<open>3 + 4\<close>.
\<close>

theorem GammaPoisson_posterior_counts_first_dims:
  "GammaPoisson_posterior_latent_dist False (snd gp_batch1) (fst gp_batch1)
     \<lparr>shape = [2, 2, 1], entries = [3, 1, 0, 5]\<rparr>
   = Inr \<lparr>g_concentration = \<lparr>shape = [1], entries = [11]\<rparr>,
          g_rate = \<lparr>shape = [1], entries = [5]\<rparr>,
          g_batch_shape = [1], g_validate_args = False\<rparr>"
  by code_simp

text \<open>
  C3.  For \<open>BetaBinomial(2., 3., total_count=4)\<close> and the single observation 3, a tensor
  with no dimension, the sizes of the leading dimensions are the empty sequence and
  \<open>reduce(mul, ...)\<close> has no initial value: the call raises TypeError and returns no
  \<open>Beta(5., 4.)\<close>.
\<close>

theorem BetaBinomial_posterior_single_obs_raises:
  "BetaBinomial_posterior_latent_dist False (snd bb_2_3_4) (fst bb_2_3_4) (scalar 3) = Inl TypeError"
  by code_simp

section \<open>Expansion keeps the recorded parameters and the validation flag\<close>

lemma BetaBinomial_expand_fields:
  assumes "BetaBinomial_expand self s = Inr new"
  shows "bb_unexpanded_params new = bb_unexpanded_params self"
    and "bb_validate_args new = bb_validate_args self"
    and "bb_batch_shape new = s"
  using assms by (auto simp: BetaBinomial_expand_def ebind_eq_Inr Let_def)

lemma GammaPoisson_expand_fields:
  assumes "GammaPoisson_expand self s = Inr new"
  shows "gp_unexpanded_params new = gp_unexpanded_params self"
    and "gp_validate_args new = gp_validate_args self"
    and "gp_batch_shape new = s"
  using assms by (auto simp: GammaPoisson_expand_def ebind_eq_Inr Let_def)

lemma bb_derived_ref: "bb_derived x y \<Longrightarrow> bb_unexpanded_params y = bb_unexpanded_params x"
  by (induction rule: bb_derived.induct) (simp_all add: BetaBinomial_expand_fields)

lemma gp_derived_ref: "gp_derived x y \<Longrightarrow> gp_unexpanded_params y = gp_unexpanded_params x"
  by (induction rule: gp_derived.induct) (simp_all add: GammaPoisson_expand_fields)

lemma BetaBinomial_init_params:
  assumes "BetaBinomial_init dflt st a b n va = Inr (self, st')"
  shows "\<exists>c1 c0 tc. broadcast_all3 a b n = Inr (c1, c0, tc)
           \<and> bb_unexpanded_params self = next_ref st
           \<and> cells st' (next_ref st) =
               [''concentration1'' \<mapsto> c1, ''concentration0'' \<mapsto> c0, ''total_count'' \<mapsto> tc]
           \<and> (\<forall>r. r \<noteq> next_ref st \<longrightarrow> cells st' r = cells st r)"
  using assms
  by (auto simp: BetaBinomial_init_def ebind_eq_Inr Let_def alloc_def split: if_splits prod.splits)

lemma GammaPoisson_init_params:
  assumes "GammaPoisson_init dflt st a b va = Inr (self, st')"
  shows "\<exists>c r. broadcast_all2 a b = Inr (c, r)
           \<and> gp_unexpanded_params self = next_ref st
           \<and> cells st' (next_ref st) = [''concentration'' \<mapsto> c, ''rate'' \<mapsto> r]
           \<and> (\<forall>r. r \<noteq> next_ref st \<longrightarrow> cells st' r = cells st r)"
  using assms
  by (auto simp: GammaPoisson_init_def ebind_eq_Inr Let_def alloc_def split: if_splits prod.splits)

lemma bb_2_3_4_init:
  "BetaBinomial_init False empty_store (scalar 2) (scalar 3) (scalar 4) None
     = Inr (fst bb_2_3_4, snd bb_2_3_4)"
proof -
  have "\<not> isl (BetaBinomial_init False empty_store (scalar 2) (scalar 3) (scalar 4) None)"
    by code_simp
  then show ?thesis unfolding bb_2_3_4_def by (simp add: Inr_projr [symmetric])
qed

lemma gp_batch1_init:
  "GammaPoisson_init False empty_store \<lparr>shape = [1], entries = [2]\<rparr> (scalar 3) None
     = Inr (fst gp_batch1, snd gp_batch1)"
proof -
  have "\<not> isl (GammaPoisson_init False empty_store \<lparr>shape = [1], entries = [2]\<rparr> (scalar 3) None)"
    by code_simp
  then show ?thesis unfolding gp_batch1_def by (simp add: Inr_projr [symmetric])
qed

text \<open>
  C9.  The constructor stores the broadcast parameters in a fresh dictionary.  Every
  instance obtained from the constructed one by any number of \<open>expand\<close> calls refers to that
  same dictionary (the same address, no copy), and \<open>expand\<close> has no access to the store:
  the dictionary still holds the values recorded at construction.
\<close>

theorem unexpanded_params_shared:
  "(BetaBinomial_init dflt st a b n va = Inr (self, st') \<and> bb_derived self new \<longrightarrow>
      bb_unexpanded_params new = bb_unexpanded_params self \<and>
      (\<exists>c1 c0 tc. broadcast_all3 a b n = Inr (c1, c0, tc) \<and>
         cells st' (bb_unexpanded_params new) =
           [''concentration1'' \<mapsto> c1, ''concentration0'' \<mapsto> c0, ''total_count'' \<mapsto> tc]))
   \<and> (GammaPoisson_init dflt st c r va = Inr (gself, gst') \<and> gp_derived gself gnew \<longrightarrow>
      gp_unexpanded_params gnew = gp_unexpanded_params gself \<and>
      (\<exists>c' r'. broadcast_all2 c r = Inr (c', r') \<and>
         cells gst' (gp_unexpanded_params gnew) = [''concentration'' \<mapsto> c', ''rate'' \<mapsto> r']))"
proof (intro conjI impI)
  assume h: "BetaBinomial_init dflt st a b n va = Inr (self, st') \<and> bb_derived self new"
  then show "bb_unexpanded_params new = bb_unexpanded_params self"
    by (simp add: bb_derived_ref)
  from h BetaBinomial_init_params [of dflt st a b n va self st']
  show "\<exists>c1 c0 tc. broadcast_all3 a b n = Inr (c1, c0, tc) \<and>
         cells st' (bb_unexpanded_params new) =
           [''concentration1'' \<mapsto> c1, ''concentration0'' \<mapsto> c0, ''total_count'' \<mapsto> tc]"
    by (auto simp: bb_derived_ref)
next
  assume h: "GammaPoisson_init dflt st c r va = Inr (gself, gst') \<and> gp_derived gself gnew"
  then show "gp_unexpanded_params gnew = gp_unexpanded_params gself"
    by (simp add: gp_derived_ref)
  from h GammaPoisson_init_params [of dflt st c r va gself gst']
  show "\<exists>c' r'. broadcast_all2 c r = Inr (c', r') \<and>
         cells gst' (gp_unexpanded_params gnew) = [''concentration'' \<mapsto> c', ''rate'' \<mapsto> r']"
    by (auto simp: gp_derived_ref)
qed

theorem unexpanded_params_shared_witness:
  "bb_unexpanded_params (projr (BetaBinomial_expand (fst bb_2_3_4) [2]))
     = bb_unexpanded_params (fst bb_2_3_4)
   \<and> cells (snd bb_2_3_4) (bb_unexpanded_params (projr (BetaBinomial_expand (fst bb_2_3_4) [2])))
       = [''concentration1'' \<mapsto> scalar 2, ''concentration0'' \<mapsto> scalar 3,
          ''total_count'' \<mapsto> scalar 4]
   \<and> gp_unexpanded_params (projr (GammaPoisson_expand (fst gp_batch1) [3, 1]))
       = gp_unexpanded_params (fst gp_batch1)
   \<and> cells (snd gp_batch1) (gp_unexpanded_params (projr (GammaPoisson_expand (fst gp_batch1) [3, 1])))
       = [''concentration'' \<mapsto> \<lparr>shape = [1], entries = [2]\<rparr>,
          ''rate'' \<mapsto> \<lparr>shape = [1], entries = [3]\<rparr>]"
proof -
  have e1: "\<not> isl (BetaBinomial_expand (fst bb_2_3_4) [2])" by code_simp
  have d1: "bb_derived (fst bb_2_3_4) (projr (BetaBinomial_expand (fst bb_2_3_4) [2]))"
    by (rule bb_expanded [OF bb_origin Inr_projr [OF e1]])
  have e2: "\<not> isl (GammaPoisson_expand (fst gp_batch1) [3, 1])" by code_simp
  have d2: "gp_derived (fst gp_batch1) (projr (GammaPoisson_expand (fst gp_batch1) [3, 1]))"
    by (rule gp_expanded [OF gp_origin Inr_projr [OF e2]])
  have b3: "broadcast_all3 (scalar 2) (scalar 3) (scalar 4) = Inr (scalar 2, scalar 3, scalar 4)"
    by code_simp
  have b2: "broadcast_all2 \<lparr>shape = [1], entries = [2]\<rparr> (scalar 3)
              = Inr (\<lparr>shape = [1], entries = [2]\<rparr>, \<lparr>shape = [1], entries = [3]\<rparr>)"
    by code_simp
  show ?thesis
    using unexpanded_params_shared [of False empty_store "scalar 2" "scalar 3" "scalar 4" None
        "fst bb_2_3_4" "snd bb_2_3_4" "projr (BetaBinomial_expand (fst bb_2_3_4) [2])"
        "\<lparr>shape = [1], entries = [2]\<rparr>" "scalar 3" "fst gp_batch1" "snd gp_batch1"
        "projr (GammaPoisson_expand (fst gp_batch1) [3, 1])"]
      bb_2_3_4_init gp_batch1_init d1 d2 b3 b2
    by auto
qed

text \<open>
  C10.  \<open>expand\<close> runs the base initialiser with \<open>validate_args=False\<close> and then copies the
  flag of the original: the instance it returns has the flag of the original, for both
  distributions.
\<close>

theorem expand_keeps_validate_args:
  "(BetaBinomial_expand self batch_shape = Inr new \<longrightarrow> bb_validate_args new = bb_validate_args self)
   \<and> (GammaPoisson_expand gself batch_shape = Inr gnew \<longrightarrow>
        gp_validate_args gnew = gp_validate_args gself)"
  by (simp add: BetaBinomial_expand_fields GammaPoisson_expand_fields)

theorem expand_keeps_validate_args_witness:
  "\<not> isl (BetaBinomial_expand bb_validated [2])
   \<and> bb_validate_args bb_validated
   \<and> bb_validate_args (projr (BetaBinomial_expand bb_validated [2]))
   \<and> \<not> isl (GammaPoisson_expand gp_validated [2])
   \<and> gp_validate_args gp_validated
   \<and> gp_validate_args (projr (GammaPoisson_expand gp_validated [2]))"
proof -
  have e1: "\<not> isl (BetaBinomial_expand bb_validated [2])" by code_simp
  have e2: "\<not> isl (GammaPoisson_expand gp_validated [2])" by code_simp
  have v1: "bb_validate_args bb_validated" by code_simp
  have v2: "gp_validate_args gp_validated" by code_simp
  show ?thesis
    using expand_keeps_validate_args [of bb_validated "[2]" "projr (BetaBinomial_expand bb_validated [2])"
        gp_validated "projr (GammaPoisson_expand gp_validated [2])"]
      Inr_projr [OF e1] Inr_projr [OF e2] e1 e2 v1 v2
    by simp
qed

section \<open>Expansion does not change log-probabilities and posteriors\<close>

lemma shape_broadcast_to [simp]: "shape (broadcast_to s a) = s"
  by (simp add: broadcast_to_def)

lemma entry_broadcast_to: "i \<in> set (indices s) \<Longrightarrow> entry (broadcast_to s a) i = den a i"
  by (simp add: broadcast_to_def entry_tabulate den_def)

lemma den_broadcast_to: "i \<in> set (indices s) \<Longrightarrow> den (broadcast_to s a) i = den a i"
  by (simp add: den_def bidx_self entry_broadcast_to [unfolded den_def])

lemma texpand_eq_Inr:
  "texpand t (map int s) = Inr r \<longleftrightarrow> fits (shape t) s \<and> r = broadcast_to s t"
  by (auto simp: texpand_nat)

lemma BetaBinomial_expand_params:
  assumes ex: "BetaBinomial_expand self s = Inr new" and inv: "bb_inv self"
  shows "fits (bb_batch_shape self) s"
    and "concentration1 new = broadcast_to s (concentration1 self)"
    and "concentration0 new = broadcast_to s (concentration0 self)"
    and "bb_total_count new = broadcast_to s (bb_total_count self)"
    and "bb_inv new"
  using ex inv
  by (auto simp: BetaBinomial_expand_def Beta_expand_def expand_as_def ebind_eq_Inr Let_def
      texpand_eq_Inr bb_inv_def concentration1_def concentration0_def)

lemma GammaPoisson_expand_params:
  assumes ex: "GammaPoisson_expand self s = Inr new" and inv: "gp_inv self"
  shows "fits (gp_batch_shape self) s"
    and "concentration new = broadcast_to s (concentration self)"
    and "rate new = broadcast_to s (rate self)"
    and "gp_inv new"
  using ex inv
  by (auto simp: GammaPoisson_expand_def Gamma_expand_def ebind_eq_Inr Let_def
      texpand_eq_Inr gp_inv_def concentration_def rate_def)

lemma binop_tabulated: "lift2 (binop f) x y = Inr c \<Longrightarrow> c = tabulate (shape c) (entry c)"
  by (auto simp: lift2_def binop_def ebind_eq_Inr tabulate_entry_tabulate split: option.splits)

lemma BetaBinomial_log_prob_tabulated:
  "BetaBinomial_log_prob lgamma self value = Inr c \<Longrightarrow> c = tabulate (shape c) (entry c)"
  unfolding BetaBinomial_log_prob_def Let_def ebind_eq_Inr tsub_def
  using binop_tabulated by blast

lemma GammaPoisson_log_prob_tabulated:
  "GammaPoisson_log_prob lgamma logf self value = Inr c \<Longrightarrow> c = tabulate (shape c) (entry c)"
  unfolding GammaPoisson_log_prob_def Let_def ebind_eq_Inr tsub_def
  using binop_tabulated by blast

lemma tabulated_eqI:
  assumes "c = tabulate (shape c) (entry c)" and "shape c = s"
    and "\<And>i. i \<in> set (indices s) \<Longrightarrow> entry c i = g i"
  shows "c = tabulate s g"
proof -
  have "tabulate s (entry c) = tabulate s g" by (rule tabulate_cong) (rule assms(3))
  with assms(1,2) show ?thesis by simp
qed

lemma BetaBinomial_validate_sample_expand:
  assumes inv: "bb_inv self" and ex: "BetaBinomial_expand self s = Inr new"
    and fv: "fits (shape value) s"
    and ok: "BetaBinomial_validate_sample self value = Inr ()"
  shows "BetaBinomial_validate_sample new value = Inr ()"
proof -
  let ?chk = "\<lambda>k n :: real. if k = real_of_int \<lfloor>k\<rfloor> \<and> 0 \<le> k \<and> k \<le> n then 1 else 0 :: real"
  let ?tc = "bb_total_count self"
  from inv have sh: "shape ?tc = bb_batch_shape self" by (simp add: bb_inv_def)
  note p = BetaBinomial_expand_params [OF ex inv]
  from broadcast_shapes_exists [OF fv p(1)]
  obtain w where w: "broadcast_shapes (shape value) (bb_batch_shape self) = Some w" "fits w s"
    by blast
  from broadcast_shapes_fits [OF w(1)] have fw: "fits (shape value) w" "fits (shape ?tc) w"
    by (simp_all add: sh)
  from ok have all: "\<And>j. j \<in> set (indices w) \<Longrightarrow>
      ?chk (entry value (bidx (shape value) j)) (entry ?tc (bidx (shape ?tc) j)) \<noteq> 0"
    by (simp add: BetaBinomial_validate_sample_def binop_def sh w(1) tall_tabulate list_all_iff
        split: if_splits)
  have "?chk (entry value (bidx (shape value) i)) (entry (broadcast_to s ?tc) (bidx s i)) \<noteq> 0"
    if i: "i \<in> set (indices s)" for i
  proof -
    have len: "length w \<le> length i"
      using fits_length [OF w(2)] indices_length [OF i] by simp
    have "entry (broadcast_to s ?tc) (bidx s i) = entry ?tc (bidx (shape ?tc) i)"
      using i by (simp add: bidx_self entry_broadcast_to den_def)
    with all [OF bidx_valid [OF w(2) i]] show ?thesis
      by (simp add: bidx_bidx [OF fw(1) len] bidx_bidx [OF fw(2) len])
  qed
  then show ?thesis
    by (simp add: BetaBinomial_validate_sample_def binop_def p(4)
        broadcast_shapes_absorb(1) [OF fv] tall_tabulate list_all_iff)
qed

lemma BetaBinomial_expand_log_prob:
  assumes inv: "bb_inv self" and ex: "BetaBinomial_expand self s = Inr new"
    and bc: "broadcast_shapes (shape value) s = Some s"
    and lp: "BetaBinomial_log_prob lgamma self value = Inr r"
  shows "texpand r (map int s) = Inr (broadcast_to s r)"
    and "BetaBinomial_log_prob lgamma new value = Inr (broadcast_to s r)"
proof -
  let ?self0 = "self\<lparr>bb_validate_args := False\<rparr>"
  let ?new0 = "new\<lparr>bb_validate_args := False\<rparr>"
  let ?F = "\<lambda>i. beta_binomial_spec lgamma (den (bb_total_count self) i) (den value i)
                 (den (concentration1 self) i) (den (concentration0 self) i)"
  from broadcast_shapes_fits [OF bc] have fv: "fits (shape value) s" by simp
  note p = BetaBinomial_expand_params [OF ex inv]
  note q = BetaBinomial_expand_fields [OF ex]
  from lp have v: "bb_validate_args self \<Longrightarrow> BetaBinomial_validate_sample self value = Inr ()"
    and lp0: "BetaBinomial_log_prob lgamma ?self0 value = Inr r"
    by (auto simp: BetaBinomial_log_prob_split [of lgamma self] ebind_eq_Inr split: if_splits)
  have "evaluates s (BetaBinomial_log_prob lgamma ?self0 value) ?F"
    using BetaBinomial_unvalidated_evaluates [of ?self0 "value" s lgamma] inv fv p(1)
    by (simp add: concentration1_def concentration0_def)
  with lp0 have r: "fits (shape r) s" "\<And>i. i \<in> set (indices s) \<Longrightarrow> den r i = ?F i"
    by (auto simp: evaluates_def)
  from r(1) show te: "texpand r (map int s) = Inr (broadcast_to s r)"
    by (simp add: texpand_nat)
  have br: "broadcast_to s r = tabulate s ?F"
    unfolding broadcast_to_def using r(2) by (intro tabulate_cong) (simp add: den_def)
  have evn: "evaluates s (BetaBinomial_log_prob lgamma ?new0 value) (\<lambda>i.
               beta_binomial_spec lgamma (den (bb_total_count new) i) (den value i)
                 (den (concentration1 new) i) (den (concentration0 new) i))"
    using BetaBinomial_unvalidated_evaluates [of ?new0 "value" s lgamma] p(5) fv q(3)
    by (simp add: concentration1_def concentration0_def)
  have rsn: "rshape (BetaBinomial_log_prob lgamma ?new0 value) = Some s"
    using BetaBinomial_unvalidated_shape [of ?new0 "value" s lgamma] p(5) bc q(3) by simp
  from evaluates_result [OF evn rsn]
  obtain r' where r': "BetaBinomial_log_prob lgamma ?new0 value = Inr r'" "shape r' = s"
    "\<And>i. i \<in> set (indices s) \<Longrightarrow> entry r' i =
        beta_binomial_spec lgamma (den (bb_total_count new) i) (den value i)
          (den (concentration1 new) i) (den (concentration0 new) i)"
    by blast
  have "r' = tabulate s ?F"
    by (rule tabulated_eqI [OF BetaBinomial_log_prob_tabulated [OF r'(1)] r'(2)])
      (simp add: r'(3) p(2,3,4) den_broadcast_to)
  with br r'(1) have lpn0: "BetaBinomial_log_prob lgamma ?new0 value = Inr (broadcast_to s r)"
    by simp
  show "BetaBinomial_log_prob lgamma new value = Inr (broadcast_to s r)"
    using BetaBinomial_validate_sample_expand [OF inv ex fv] v lpn0 q(2)
    by (simp add: BetaBinomial_log_prob_split [of lgamma new])
qed

lemma GammaPoisson_expand_log_prob:
  assumes inv: "gp_inv self" and ex: "GammaPoisson_expand self s = Inr new"
    and bc: "broadcast_shapes (shape value) s = Some s"
    and lp: "GammaPoisson_log_prob lgamma logf self value = Inr r"
  shows "texpand r (map int s) = Inr (broadcast_to s r)"
    and "GammaPoisson_log_prob lgamma logf new value = Inr (broadcast_to s r)"
proof -
  let ?self0 = "self\<lparr>gp_validate_args := False\<rparr>"
  let ?new0 = "new\<lparr>gp_validate_args := False\<rparr>"
  let ?F = "\<lambda>i. gamma_poisson_spec lgamma logf (den (concentration self) i) (den (rate self) i)
                 (den value i)"
  from broadcast_shapes_fits [OF bc] have fv: "fits (shape value) s" by simp
  note p = GammaPoisson_expand_params [OF ex inv]
  note q = GammaPoisson_expand_fields [OF ex]
  from lp have v: "gp_validate_args self \<Longrightarrow> GammaPoisson_validate_sample self value = Inr ()"
    and lp0: "GammaPoisson_log_prob lgamma logf ?self0 value = Inr r"
    by (auto simp: GammaPoisson_log_prob_split [of lgamma logf self] ebind_eq_Inr split: if_splits)
  have "evaluates s (GammaPoisson_log_prob lgamma logf ?self0 value) ?F"
    using GammaPoisson_unvalidated_evaluates [of ?self0 "value" s lgamma logf] inv fv p(1)
    by (simp add: concentration_def rate_def)
  with lp0 have r: "fits (shape r) s" "\<And>i. i \<in> set (indices s) \<Longrightarrow> den r i = ?F i"
    by (auto simp: evaluates_def)
  from r(1) show te: "texpand r (map int s) = Inr (broadcast_to s r)"
    by (simp add: texpand_nat)
  have br: "broadcast_to s r = tabulate s ?F"
    unfolding broadcast_to_def using r(2) by (intro tabulate_cong) (simp add: den_def)
  have evn: "evaluates s (GammaPoisson_log_prob lgamma logf ?new0 value) (\<lambda>i.
               gamma_poisson_spec lgamma logf (den (concentration new) i) (den (rate new) i)
                 (den value i))"
    using GammaPoisson_unvalidated_evaluates [of ?new0 "value" s lgamma logf] p(4) fv q(3)
    by (simp add: concentration_def rate_def)
  have rsn: "rshape (GammaPoisson_log_prob lgamma logf ?new0 value) = Some s"
    using GammaPoisson_unvalidated_shape [of ?new0 "value" s lgamma logf] p(4) bc q(3) by simp
  from evaluates_result [OF evn rsn]
  obtain r' where r': "GammaPoisson_log_prob lgamma logf ?new0 value = Inr r'" "shape r' = s"
    "\<And>i. i \<in> set (indices s) \<Longrightarrow> entry r' i =
        gamma_poisson_spec lgamma logf (den (concentration new) i) (den (rate new) i)
          (den value i)"
    by blast
  have "r' = tabulate s ?F"
    by (rule tabulated_eqI [OF GammaPoisson_log_prob_tabulated [OF r'(1)] r'(2)])
      (simp add: r'(3) p(2,3) den_broadcast_to)
  with br r'(1) have lpn0: "GammaPoisson_log_prob lgamma logf ?new0 value = Inr (broadcast_to s r)"
    by simp
  show "GammaPoisson_log_prob lgamma logf new value = Inr (broadcast_to s r)"
    using v lpn0 q(2)
    by (simp add: GammaPoisson_log_prob_split [of lgamma logf new] GammaPoisson_validate_sample_def)
qed

lemma BetaBinomial_expand_posterior:
  "BetaBinomial_expand self s = Inr new \<Longrightarrow>
   BetaBinomial_posterior_latent_dist dflt st new obs = BetaBinomial_posterior_latent_dist dflt st self obs"
  by (simp add: BetaBinomial_posterior_latent_dist_def BetaBinomial_expand_fields)

lemma GammaPoisson_expand_posterior:
  "GammaPoisson_expand self s = Inr new \<Longrightarrow>
   GammaPoisson_posterior_latent_dist dflt st new obs = GammaPoisson_posterior_latent_dist dflt st self obs"
  by (simp add: GammaPoisson_posterior_latent_dist_def GammaPoisson_expand_fields)

lemma pick_onto:
  "fits_rev rw rs \<Longrightarrow> list_all2 (<) rj rw \<Longrightarrow> 0 \<notin> set rs \<Longrightarrow>
   \<exists>ri. list_all2 (<) ri rs \<and> map (\<lambda>(d, j). if d = 1 then 0 else j) (zip rw ri) = (rj :: nat list)"
proof (induction rw rs arbitrary: rj rule: fits_rev.induct)
  case (1 cs)
  then have "list_all2 (<) (replicate (length cs) 0) cs"
    by (auto simp: list_all2_conv_all_nth in_set_conv_nth)
  with 1 show ?case by (intro exI [of _ "replicate (length cs) 0"]) simp
next
  case (2 a as)
  then show ?case by simp
next
  case (3 a as c cs)
  from "3.prems"(2) obtain j js where rj: "rj = j # js" "j < a" "list_all2 (<) js as"
    by (auto simp: list_all2_Cons2)
  from "3.prems" have "fits_rev as cs" "0 \<notin> set cs" "0 < c" "a = c \<or> a = 1" by auto
  with "3.IH" [of js] rj obtain ri where
    ri: "list_all2 (<) ri cs" "map (\<lambda>(d, j). if d = 1 then 0 else j) (zip as ri) = js"
    by blast
  show ?case
    using ri rj \<open>0 < c\<close> \<open>a = c \<or> a = 1\<close>
    by (intro exI [of _ "(if a = c then j else 0) # ri"]) auto
qed

lemma bidx_onto:
  assumes "fits w s" and "j \<in> set (indices w)" and "0 \<notin> set s"
  shows "\<exists>i \<in> set (indices s). bidx w i = j"
proof -
  from assms have "\<exists>ri. list_all2 (<) ri (rev s) \<and>
      map (\<lambda>(d, j). if d = 1 then 0 else j) (zip (rev w) ri) = rev j"
    by (intro pick_onto) (simp_all add: fits_def in_indices_iff list_all2_rev)
  then obtain ri where ri: "list_all2 (<) ri (rev s)"
    "map (\<lambda>(d, j). if d = 1 then 0 else j) (zip (rev w) ri) = rev j" by blast
  from ri(1) have "rev ri \<in> set (indices s)"
    using list_all2_rev [of "(<)" "rev ri" s] by (simp add: in_indices_iff)
  moreover from ri(2) have "bidx w (rev ri) = j"
    by (simp add: bidx_def)
  ultimately show ?thesis by blast
qed

lemma BetaBinomial_validate_sample_cases:
  "BetaBinomial_validate_sample self value = Inr () \<or> BetaBinomial_validate_sample self value = Inl ValueError"
  by (simp add: BetaBinomial_validate_sample_def split: sum.splits)

lemma BetaBinomial_validate_sample_expand_iff:
  assumes inv: "bb_inv self" and ex: "BetaBinomial_expand self s = Inr new"
    and fv: "fits (shape value) s" and nz: "0 \<notin> set s"
  shows "BetaBinomial_validate_sample new value = BetaBinomial_validate_sample self value"
proof (cases "BetaBinomial_validate_sample self value = Inr ()")
  case True
  with BetaBinomial_validate_sample_expand [OF inv ex fv] show ?thesis by simp
next
  case False
  let ?chk = "\<lambda>k n :: real. if k = real_of_int \<lfloor>k\<rfloor> \<and> 0 \<le> k \<and> k \<le> n then 1 else 0 :: real"
  let ?tc = "bb_total_count self"
  from inv have sh: "shape ?tc = bb_batch_shape self" by (simp add: bb_inv_def)
  note p = BetaBinomial_expand_params [OF ex inv]
  from broadcast_shapes_exists [OF fv p(1)]
  obtain w where w: "broadcast_shapes (shape value) (bb_batch_shape self) = Some w" "fits w s"
    by blast
  from broadcast_shapes_fits [OF w(1)] have fw: "fits (shape value) w" "fits (shape ?tc) w"
    by (simp_all add: sh)
  from False obtain j where j: "j \<in> set (indices w)"
      "?chk (entry value (bidx (shape value) j)) (entry ?tc (bidx (shape ?tc) j)) = 0"
    by (auto simp: BetaBinomial_validate_sample_def binop_def sh w(1) tall_tabulate list_all_iff
        split: if_splits)
  from bidx_onto [OF w(2) j(1) nz] obtain i where i: "i \<in> set (indices s)" "bidx w i = j"
    by blast
  have len: "length w \<le> length i"
    using fits_length [OF w(2)] indices_length [OF i(1)] by simp
  have "entry (broadcast_to s ?tc) (bidx s i) = entry ?tc (bidx (shape ?tc) i)"
    using i(1) by (simp add: bidx_self entry_broadcast_to den_def)
  with j(2) have "?chk (entry value (bidx (shape value) i)) (entry (broadcast_to s ?tc) (bidx s i)) = 0"
    unfolding i(2) [symmetric] by (simp add: bidx_bidx [OF fw(1) len] bidx_bidx [OF fw(2) len])
  with i(1) have "\<not> (\<forall>i \<in> set (indices s).
      ?chk (entry value (bidx (shape value) i)) (entry (broadcast_to s ?tc) (bidx s i)) \<noteq> 0)"
    by blast
  then have "BetaBinomial_validate_sample new value = Inl ValueError"
    by (simp only: BetaBinomial_validate_sample_def binop_def p(4) shape_broadcast_to
        broadcast_shapes_absorb(1) [OF fv] tall_tabulate list_all_iff option.case sum.case if_False)
  with False BetaBinomial_validate_sample_cases [of self "value"] show ?thesis by simp
qed

lemma BetaBinomial_expand_log_prob_raises:
  assumes inv: "bb_inv self" and ex: "BetaBinomial_expand self s = Inr new"
    and bc: "broadcast_shapes (shape value) s = Some s" and nz: "0 \<notin> set s"
    and lp: "BetaBinomial_log_prob lgamma self value = Inl e"
  shows "BetaBinomial_log_prob lgamma new value = Inl e"
proof -
  let ?self0 = "self\<lparr>bb_validate_args := False\<rparr>"
  from broadcast_shapes_fits [OF bc] have fv: "fits (shape value) s" by simp
  note p = BetaBinomial_expand_params [OF ex inv]
  note q = BetaBinomial_expand_fields [OF ex]
  have "\<exists>c. BetaBinomial_log_prob lgamma ?self0 value = Inr c"
    using BetaBinomial_unvalidated_evaluates [of ?self0 "value" s lgamma] inv fv p(1)
    by (auto simp: evaluates_def)
  with lp have "bb_validate_args self" "BetaBinomial_validate_sample self value = Inl e"
    by (auto simp: BetaBinomial_log_prob_split [of lgamma self] ebind_def
        split: if_splits sum.splits)
  then show ?thesis
    using BetaBinomial_validate_sample_expand_iff [OF inv ex fv nz] q(2)
    by (simp add: BetaBinomial_log_prob_split [of lgamma new])
qed

lemma GammaPoisson_expand_log_prob_raises:
  assumes inv: "gp_inv self" and ex: "GammaPoisson_expand self s = Inr new"
    and bc: "broadcast_shapes (shape value) s = Some s"
    and lp: "GammaPoisson_log_prob lgamma logf self value = Inl e"
  shows "GammaPoisson_log_prob lgamma logf new value = Inl e"
proof -
  let ?self0 = "self\<lparr>gp_validate_args := False\<rparr>"
  from broadcast_shapes_fits [OF bc] have fv: "fits (shape value) s" by simp
  note p = GammaPoisson_expand_params [OF ex inv]
  note q = GammaPoisson_expand_fields [OF ex]
  have "\<exists>c. GammaPoisson_log_prob lgamma logf ?self0 value = Inr c"
    using GammaPoisson_unvalidated_evaluates [of ?self0 "value" s lgamma logf] inv fv p(1)
    by (auto simp: evaluates_def)
  with lp have "gp_validate_args self" "GammaPoisson_validate_sample self value = Inl e"
    by (auto simp: GammaPoisson_log_prob_split [of lgamma logf self] ebind_def
        split: if_splits sum.splits)
  then show ?thesis
    using q(2)
    by (simp add: GammaPoisson_log_prob_split [of lgamma logf new] GammaPoisson_validate_sample_def)
qed

text \<open>
  C4.  Let \<open>expand\<close> to a batch shape succeed and let the value broadcast to that shape.
  Whenever \<open>log_prob\<close> of the original instance returns a tensor, \<open>log_prob\<close> of the expanded
  instance returns that tensor expanded to the batch shape (with validation on or off,
  since the flag is kept).  When \<open>log_prob\<close> of the original raises, \<open>log_prob\<close> of the
  expanded instance raises the same exception (for BetaBinomial: if no dimension of the
  batch shape has size 0, where there is no entry left to validate).  And
  \<open>_posterior_latent_dist\<close> of the expanded instance is \<open>_posterior_latent_dist\<close> of the
  original, result or exception, for every observation array.
\<close>

theorem expand_invariance:
  "(bb_inv self \<and> BetaBinomial_expand self batch_shape = Inr new
      \<and> broadcast_shapes (shape value) batch_shape = Some batch_shape
      \<and> BetaBinomial_log_prob lgamma self value = Inr r \<longrightarrow>
     (\<exists>r'. texpand r (map int batch_shape) = Inr r'
          \<and> BetaBinomial_log_prob lgamma new value = Inr r'))
   \<and> (bb_inv self \<and> BetaBinomial_expand self batch_shape = Inr new
      \<and> broadcast_shapes (shape value') batch_shape = Some batch_shape \<and> 0 \<notin> set batch_shape
      \<and> BetaBinomial_log_prob lgamma self value' = Inl e \<longrightarrow>
     BetaBinomial_log_prob lgamma new value' = Inl e)
   \<and> (BetaBinomial_expand self batch_shape = Inr new \<longrightarrow>
        BetaBinomial_posterior_latent_dist dflt st new obs
          = BetaBinomial_posterior_latent_dist dflt st self obs)
   \<and> (gp_inv gself \<and> GammaPoisson_expand gself batch_shape = Inr gnew
      \<and> broadcast_shapes (shape value) batch_shape = Some batch_shape
      \<and> GammaPoisson_log_prob lgamma logf gself value = Inr gr \<longrightarrow>
     (\<exists>r'. texpand gr (map int batch_shape) = Inr r'
          \<and> GammaPoisson_log_prob lgamma logf gnew value = Inr r'))
   \<and> (gp_inv gself \<and> GammaPoisson_expand gself batch_shape = Inr gnew
      \<and> broadcast_shapes (shape value') batch_shape = Some batch_shape
      \<and> GammaPoisson_log_prob lgamma logf gself value' = Inl e' \<longrightarrow>
     GammaPoisson_log_prob lgamma logf gnew value' = Inl e')
   \<and> (GammaPoisson_expand gself batch_shape = Inr gnew \<longrightarrow>
        GammaPoisson_posterior_latent_dist dflt st gnew obs
          = GammaPoisson_posterior_latent_dist dflt st gself obs)"
proof (intro conjI impI)
  assume "bb_inv self \<and> BetaBinomial_expand self batch_shape = Inr new
      \<and> broadcast_shapes (shape value) batch_shape = Some batch_shape
      \<and> BetaBinomial_log_prob lgamma self value = Inr r"
  then show "\<exists>r'. texpand r (map int batch_shape) = Inr r'
          \<and> BetaBinomial_log_prob lgamma new value = Inr r'"
    using BetaBinomial_expand_log_prob [of self batch_shape new "value" lgamma r] by blast
next
  assume "bb_inv self \<and> BetaBinomial_expand self batch_shape = Inr new
      \<and> broadcast_shapes (shape value') batch_shape = Some batch_shape \<and> 0 \<notin> set batch_shape
      \<and> BetaBinomial_log_prob lgamma self value' = Inl e"
  then show "BetaBinomial_log_prob lgamma new value' = Inl e"
    using BetaBinomial_expand_log_prob_raises [of self batch_shape new value' lgamma e] by blast
next
  assume "BetaBinomial_expand self batch_shape = Inr new"
  then show "BetaBinomial_posterior_latent_dist dflt st new obs
          = BetaBinomial_posterior_latent_dist dflt st self obs"
    by (rule BetaBinomial_expand_posterior)
next
  assume "gp_inv gself \<and> GammaPoisson_expand gself batch_shape = Inr gnew
      \<and> broadcast_shapes (shape value) batch_shape = Some batch_shape
      \<and> GammaPoisson_log_prob lgamma logf gself value = Inr gr"
  then show "\<exists>r'. texpand gr (map int batch_shape) = Inr r'
          \<and> GammaPoisson_log_prob lgamma logf gnew value = Inr r'"
    using GammaPoisson_expand_log_prob [of gself batch_shape gnew "value" lgamma logf gr] by blast
next
  assume "gp_inv gself \<and> GammaPoisson_expand gself batch_shape = Inr gnew
      \<and> broadcast_shapes (shape value') batch_shape = Some batch_shape
      \<and> GammaPoisson_log_prob lgamma logf gself value' = Inl e'"
  then show "GammaPoisson_log_prob lgamma logf gnew value' = Inl e'"
    using GammaPoisson_expand_log_prob_raises [of gself batch_shape gnew value' lgamma logf e']
    by blast
next
  assume "GammaPoisson_expand gself batch_shape = Inr gnew"
  then show "GammaPoisson_posterior_latent_dist dflt st gnew obs
          = GammaPoisson_posterior_latent_dist dflt st gself obs"
    by (rule GammaPoisson_expand_posterior)
qed

theorem expand_invariance_witness:
  "bb_inv bb_validated \<and> \<not> isl (BetaBinomial_expand bb_validated [2])
   \<and> broadcast_shapes (shape \<lparr>shape = [2], entries = [0, 3]\<rparr>) [2] = Some [2]
   \<and> \<not> isl (BetaBinomial_log_prob (\<lambda>x. x) bb_validated \<lparr>shape = [2], entries = [0, 3]\<rparr>)
   \<and> (\<exists>r'. texpand (projr (BetaBinomial_log_prob (\<lambda>x. x) bb_validated \<lparr>shape = [2], entries = [0, 3]\<rparr>))
               (map int [2]) = Inr r'
          \<and> BetaBinomial_log_prob (\<lambda>x. x) (projr (BetaBinomial_expand bb_validated [2]))
               \<lparr>shape = [2], entries = [0, 3]\<rparr> = Inr r')
   \<and> broadcast_shapes (shape \<lparr>shape = [2], entries = [0, 7 / 2]\<rparr>) [2] = Some [2] \<and> 0 \<notin> set [2::nat]
   \<and> BetaBinomial_log_prob (\<lambda>x. x) bb_validated \<lparr>shape = [2], entries = [0, 7 / 2]\<rparr> = Inl ValueError
   \<and> BetaBinomial_log_prob (\<lambda>x. x) (projr (BetaBinomial_expand bb_validated [2]))
        \<lparr>shape = [2], entries = [0, 7 / 2]\<rparr> = Inl ValueError
   \<and> \<not> isl (BetaBinomial_posterior_latent_dist False (snd gp_after_bb) bb_validated
               \<lparr>shape = [2, 1], entries = [0, 3]\<rparr>)
   \<and> BetaBinomial_posterior_latent_dist False (snd gp_after_bb)
        (projr (BetaBinomial_expand bb_validated [2])) \<lparr>shape = [2, 1], entries = [0, 3]\<rparr>
      = BetaBinomial_posterior_latent_dist False (snd gp_after_bb) bb_validated
          \<lparr>shape = [2, 1], entries = [0, 3]\<rparr>
   \<and> gp_inv (fst gp_after_bb) \<and> \<not> isl (GammaPoisson_expand (fst gp_after_bb) [2])
   \<and> \<not> isl (GammaPoisson_log_prob (\<lambda>x. x) (\<lambda>x. x) (fst gp_after_bb) \<lparr>shape = [2], entries = [0, 3]\<rparr>)
   \<and> (\<exists>r'. texpand (projr (GammaPoisson_log_prob (\<lambda>x. x) (\<lambda>x. x) (fst gp_after_bb)
                               \<lparr>shape = [2], entries = [0, 3]\<rparr>))
               (map int [2]) = Inr r'
          \<and> GammaPoisson_log_prob (\<lambda>x. x) (\<lambda>x. x) (projr (GammaPoisson_expand (fst gp_after_bb) [2]))
               \<lparr>shape = [2], entries = [0, 3]\<rparr> = Inr r')
   \<and> GammaPoisson_log_prob (\<lambda>x. x) (\<lambda>x. x) (fst gp_after_bb) \<lparr>shape = [2], entries = [0, 7 / 2]\<rparr>
        = Inl ValueError
   \<and> GammaPoisson_log_prob (\<lambda>x. x) (\<lambda>x. x) (projr (GammaPoisson_expand (fst gp_after_bb) [2]))
        \<lparr>shape = [2], entries = [0, 7 / 2]\<rparr> = Inl ValueError
   \<and> \<not> isl (GammaPoisson_posterior_latent_dist False (snd gp_after_bb) (fst gp_after_bb)
               \<lparr>shape = [2, 1], entries = [0, 3]\<rparr>)
   \<and> GammaPoisson_posterior_latent_dist False (snd gp_after_bb)
        (projr (GammaPoisson_expand (fst gp_after_bb) [2])) \<lparr>shape = [2, 1], entries = [0, 3]\<rparr>
      = GammaPoisson_posterior_latent_dist False (snd gp_after_bb) (fst gp_after_bb)
          \<lparr>shape = [2, 1], entries = [0, 3]\<rparr>"
proof -
  let ?v = "\<lparr>shape = [2], entries = [0, 3]\<rparr>"
  let ?h = "\<lparr>shape = [2], entries = [0, 7 / 2]\<rparr>"
  let ?obs = "\<lparr>shape = [2, 1], entries = [0, 3]\<rparr>"
  let ?gp = "fst gp_after_bb"
  have h1: "bb_inv bb_validated" by code_simp
  have h2: "\<not> isl (BetaBinomial_expand bb_validated [2])" by code_simp
  have h3: "broadcast_shapes (shape ?v) [2] = Some [2]" "broadcast_shapes (shape ?h) [2] = Some [2]"
    by code_simp+
  have h4: "\<not> isl (BetaBinomial_log_prob (\<lambda>x. x) bb_validated ?v)" by code_simp
  have h5: "BetaBinomial_log_prob (\<lambda>x. x) bb_validated ?h = Inl ValueError" by code_simp
  have h6: "\<not> isl (BetaBinomial_posterior_latent_dist False (snd gp_after_bb) bb_validated ?obs)"
    by code_simp
  have g1: "gp_inv ?gp" by code_simp
  have g2: "\<not> isl (GammaPoisson_expand ?gp [2])" by code_simp
  have g4: "\<not> isl (GammaPoisson_log_prob (\<lambda>x. x) (\<lambda>x. x) ?gp ?v)" by code_simp
  have g5: "GammaPoisson_log_prob (\<lambda>x. x) (\<lambda>x. x) ?gp ?h = Inl ValueError" by code_simp
  have g6: "\<not> isl (GammaPoisson_posterior_latent_dist False (snd gp_after_bb) ?gp ?obs)"
    by code_simp
  show ?thesis
    using expand_invariance [of bb_validated "[2]" "projr (BetaBinomial_expand bb_validated [2])" ?v
        "\<lambda>x. x" "projr (BetaBinomial_log_prob (\<lambda>x. x) bb_validated ?v)" ?h ValueError
        False "snd gp_after_bb" ?obs
        ?gp "projr (GammaPoisson_expand ?gp [2])" "\<lambda>x. x"
        "projr (GammaPoisson_log_prob (\<lambda>x. x) (\<lambda>x. x) ?gp ?v)" ValueError]
      h1 h3 h5 g1 g5 Inr_projr [OF h2] Inr_projr [OF h4] Inr_projr [OF g2] Inr_projr [OF g4]
      h2 h4 g2 g4 h6 g6
    by simp
qed

section \<open>The invariants hold for every instance the program builds\<close>

text \<open>
  The statements above take an instance whose parameters have the batch shape.  The
  constructors return such instances and \<open>expand\<close> keeps the property.
\<close>

lemma BetaBinomial_init_inv:
  assumes "BetaBinomial_init dflt st a b n va = Inr (self, st')"
  shows "bb_inv self"
  using assms
  by (auto simp: BetaBinomial_init_def Beta_init_def broadcast_all3_def broadcast_all2_def
      ebind_eq_Inr Let_def alloc_def bb_inv_def concentration1_def concentration0_def
      split: if_splits prod.splits option.splits)

lemma GammaPoisson_init_inv:
  assumes "GammaPoisson_init dflt st c r va = Inr (self, st')"
  shows "gp_inv self"
  using assms
  by (auto simp: GammaPoisson_init_def Gamma_init_def broadcast_all2_def
      ebind_eq_Inr Let_def alloc_def gp_inv_def concentration_def rate_def
      split: if_splits prod.splits option.splits)

lemma bb_derived_inv: "bb_derived x y \<Longrightarrow> bb_inv x \<Longrightarrow> bb_inv y"
  by (induction rule: bb_derived.induct) (auto intro: BetaBinomial_expand_params(5))

lemma gp_derived_inv: "gp_derived x y \<Longrightarrow> gp_inv x \<Longrightarrow> gp_inv y"
  by (induction rule: gp_derived.induct) (auto intro: GammaPoisson_expand_params(4))

end
